theory Spec2Isabelle
  imports Main "HOL-Library.Word"
begin

unbundle bit_operations_syntax

text \<open>
  The SM2 key exchange of \<^verbatim>\<open>sm2/sm2_keyexchange.go\<close>: the session record, its
  operations as functions that return their result together with the session they
  leave behind, the reference definitions of the specification, and the properties
  of the exchange.
\<close>

section \<open>Go values used by the key exchange\<close>

text \<open>
  A Go \<^verbatim>\<open>[]byte\<close> is a list of bytes or the nil slice (\<open>None\<close>); \<^verbatim>\<open>len\<close> of
  the nil slice is 0 and ranging over it or appending it contributes nothing. Every
  pointer (\<^verbatim>\<open>*big.Int\<close>, \<^verbatim>\<open>*ecdsa.PublicKey\<close>, \<^verbatim>\<open>*PrivateKey\<close>) is an option, and
  a dereference of nil is the result \<open>Inl Panic\<close>. An error made by \<^verbatim>\<open>errors.New\<close>
  is \<open>Error\<close> with its message.
\<close>

type_synonym byte = "8 word"
type_synonym slice = "byte list option"
type_synonym curve = nat
type_synonym reader = "byte list"

datatype error = Error string | Panic

definition len :: "slice \<Rightarrow> nat" where
  "len s = (case s of None \<Rightarrow> 0 | Some bs \<Rightarrow> length bs)"

definition elems :: "slice \<Rightarrow> byte list" where
  "elems s = (case s of None \<Rightarrow> [] | Some bs \<Rightarrow> bs)"

subsection \<open>math/big\<close>

fun nat_bytes :: "nat \<Rightarrow> byte list" where
  "nat_bytes n = (if n = 0 then [] else nat_bytes (n div 256) @ [of_nat (n mod 256)])"

fun nat_bitlen :: "nat \<Rightarrow> nat" where
  "nat_bitlen n = (if n = 0 then 0 else Suc (nat_bitlen (n div 2)))"

definition Bytes :: "int \<Rightarrow> byte list" where
  \<comment> \<open>\<^verbatim>\<open>x.Bytes()\<close>: the big-endian bytes of the absolute value, no leading zero.\<close>
  "Bytes x = nat_bytes (nat \<bar>x\<bar>)"

definition BitLen :: "int \<Rightarrow> int" where
  \<comment> \<open>\<^verbatim>\<open>x.BitLen()\<close>: the length of the absolute value in bits; 0 for 0.\<close>
  "BitLen x = int (nat_bitlen (nat \<bar>x\<bar>))"

definition Sign :: "int \<Rightarrow> int" where
  "Sign x = (if x < 0 then - 1 else if x = 0 then 0 else 1)"

definition Mod :: "int \<Rightarrow> int \<Rightarrow> error + int" where
  \<comment> \<open>\<^verbatim>\<open>z.Mod(x, y)\<close>: Euclidean modulus, a division-by-zero panic for \<open>y = 0\<close>.\<close>
  "Mod x y = (if y = 0 then Inl Panic else Inr (x mod \<bar>y\<bar>))"

definition Lsh :: "int \<Rightarrow> nat \<Rightarrow> int" where
  "Lsh x n = push_bit n x"

definition uint_of_int :: "int \<Rightarrow> nat" where
  \<comment> \<open>The conversion \<^verbatim>\<open>uint(w)\<close> of a 64-bit \<^verbatim>\<open>int\<close>: a negative value wraps.\<close>
  "uint_of_int w = nat (w mod 2 ^ 64)"

subsection \<open>crypto/subtle\<close>

definition ConstantTimeByteEq :: "byte \<Rightarrow> byte \<Rightarrow> int" where
  "ConstantTimeByteEq a b = (if a = b then 1 else 0)"

fun xor_or_loop :: "byte list \<Rightarrow> byte list \<Rightarrow> byte \<Rightarrow> byte" where
  "xor_or_loop (a # as) (b # bs) acc = xor_or_loop as bs (acc OR (a XOR b))"
| "xor_or_loop _ _ acc = acc"

definition ConstantTimeCompare :: "byte list \<Rightarrow> byte list \<Rightarrow> int" where
  "ConstantTimeCompare xs ys =
     (if length xs \<noteq> length ys then 0
      else ConstantTimeByteEq (xor_or_loop xs ys 0) 0)"

subsection \<open>Keys\<close>

record PublicKey =
  Curve :: "curve option"
  X :: "int option"
  Y :: "int option"

record PrivateKey = PublicKey +
  D :: "int option"

section \<open>The collaborators of the key exchange\<close>

text \<open>
  The curve arithmetic, the SM3 hash, its key-derivation function, the identity digest
  and the random scalar draw live outside \<^verbatim>\<open>sm2_keyexchange.go\<close>. They are the fields
  of a record that every operation of the session takes as its first argument. The
  curve methods are indexed by the curve value their receiver holds. A hash object
  is the list of the bytes written so far, and \<open>sm3_Sum\<close> is the digest of that list.
\<close>

record provider =
  Params_N :: "curve \<Rightarrow> int"
  fieldByteLen :: "curve \<Rightarrow> nat"
  IsOnCurve :: "curve \<Rightarrow> int \<Rightarrow> int \<Rightarrow> bool"
  Add :: "curve \<Rightarrow> int \<Rightarrow> int \<Rightarrow> int \<Rightarrow> int \<Rightarrow> int \<times> int"
  ScalarMult :: "curve \<Rightarrow> int \<Rightarrow> int \<Rightarrow> byte list \<Rightarrow> int \<times> int"
  ScalarBaseMult :: "curve \<Rightarrow> byte list \<Rightarrow> int \<times> int"
  sm3_Sum :: "byte list \<Rightarrow> byte list"
  sm3_Kdf :: "byte list \<Rightarrow> int \<Rightarrow> error + byte list"
  CalculateZA :: "PublicKey \<Rightarrow> byte list \<Rightarrow> error + byte list"
  randFieldElement :: "curve \<Rightarrow> reader \<Rightarrow> error + int"

definition sm3_New :: "byte list" where
  "sm3_New = []"

definition hash_Write :: "byte list \<Rightarrow> byte list \<Rightarrow> byte list" where
  "hash_Write h p = h @ p"

definition hash_Reset :: "byte list \<Rightarrow> byte list" where
  "hash_Reset h = []"

definition hash_Sum :: "provider \<Rightarrow> byte list \<Rightarrow> byte list" where
  "hash_Sum P h = sm3_Sum P h"

definition defaultUID :: slice where
  \<comment> \<open>Modelled from the spec: the package variable \<^verbatim>\<open>defaultUID\<close> is declared in another
      file; the spec gives it as the 16-byte ASCII literal 1234567812345678.\<close>
  "defaultUID = Some [0x31, 0x32, 0x33, 0x34, 0x35, 0x36, 0x37, 0x38,
                      0x31, 0x32, 0x33, 0x34, 0x35, 0x36, 0x37, 0x38]"

definition bigIntToBytes :: "provider \<Rightarrow> PrivateKey option \<Rightarrow> int option \<Rightarrow> error + byte list" where
  \<comment> \<open>Modelled from the spec: the helper \<^verbatim>\<open>bigIntToBytes(curve, value)\<close> is declared in
      another file. The spec makes the conversion fixed-width: the big-endian bytes of the
      coordinate, left-padded with zero bytes to the curve's field-element byte length.
      The spec is silent on a negative value and on one that does not fit the width;
      no fixed-width result exists there and the model panics, as it does on nil.\<close>
  "bigIntToBytes P c val =
     (case c of None \<Rightarrow> Inl Panic | Some pk \<Rightarrow>
      (case (Curve pk, val) of
         (Some cv, Some x) \<Rightarrow>
           (if 0 \<le> x \<and> length (Bytes x) \<le> fieldByteLen P cv
            then Inr (replicate (fieldByteLen P cv - length (Bytes x)) 0 @ Bytes x)
            else Inl Panic)
       | _ \<Rightarrow> Inl Panic))"

section \<open>The session\<close>

text \<open>
  A session is a value. A method that assigns to a field or changes a big integer in
  place returns the updated session; an error return hands back the session as the
  method left it, so that what an error leaves behind can be stated. Sharing of a big
  integer or a point between two fields, or with an object of the caller, is not
  modelled: the scalar \<open>r\<close> and the coordinates of \<open>secret\<close> and \<open>v\<close> are fresh
  results of the draw and of the curve, and the only writes in place, those of
  \<open>Destroy\<close>, are zeros. An \<^verbatim>\<open>elliptic.Curve\<close> value is a number that selects the
  provider's operations; the nil interface is \<open>None\<close>.
\<close>

record KeyExchange =
  genSignature :: bool
  keyLength :: int
  privateKey :: "PrivateKey option"
  z :: slice
  peerPub :: "PublicKey option"
  peerZ :: slice
  r :: "int option"
  secret :: "PublicKey option"
  peerSecret :: "PublicKey option"
  w2 :: "int option"
  w2Minus1 :: "int option"
  v :: "PublicKey option"

definition errPeerPubExists :: error where
  "errPeerPubExists = Error ''sm2: 'peerPub' already exists, please do not set it''"

definition errPeerPubUnsupported :: error where
  "errPeerPubUnsupported = Error ''sm2: peer public key is not expected/supported''"

definition errNoPeerPub :: error where
  "errNoPeerPub = Error ''sm2: no peer public key given''"

definition errInitiatorEphemeral :: error where
  "errInitiatorEphemeral = Error ''sm2: invalid initiator's ephemeral public key''"

definition errResponderEphemeral :: error where
  "errResponderEphemeral = Error ''sm2: invalid responder's ephemeral public key''"

definition errVInfinity :: error where
  "errVInfinity = Error ''sm2: key exchange failed, V is infinity point''"

definition errUInfinity :: error where
  "errUInfinity = Error ''sm2: key exchange failed, U is infinity point''"

definition errResponderSignature :: error where
  "errResponderSignature = Error ''sm2: invalid responder's signature''"

definition errInitiatorSignature :: error where
  "errInitiatorSignature = Error ''sm2: invalid initiator's signature''"

subsection \<open>Destroy\<close>

definition destroyBigInt :: "int option \<Rightarrow> int option" where
  "destroyBigInt n = (case n of None \<Rightarrow> None | Some _ \<Rightarrow> Some 0)"

definition destroyPublicKey :: "PublicKey option \<Rightarrow> PublicKey option" where
  "destroyPublicKey pub =
     (case pub of None \<Rightarrow> None
      | Some p \<Rightarrow> Some (p\<lparr>X := destroyBigInt (X p), Y := destroyBigInt (Y p)\<rparr>))"

fun destroyBytes_loop :: "nat list \<Rightarrow> byte list \<Rightarrow> byte list" where
  "destroyBytes_loop [] bs = bs"
| "destroyBytes_loop (i # is) bs = destroyBytes_loop is (bs[i := 0])"

definition destroyBytes :: "slice \<Rightarrow> slice" where
  "destroyBytes bytes =
     (case bytes of None \<Rightarrow> None
      | Some bs \<Rightarrow> Some (destroyBytes_loop [0..<length bs] bs))"

definition Destroy :: "KeyExchange \<Rightarrow> KeyExchange" where
  "Destroy ke =
     (let ke1 = ke\<lparr>z := destroyBytes (z ke)\<rparr>;
          ke2 = ke1\<lparr>peerZ := destroyBytes (peerZ ke1)\<rparr>;
          ke3 = ke2\<lparr>r := destroyBigInt (r ke2)\<rparr>
      in ke3\<lparr>v := destroyPublicKey (v ke3)\<rparr>)"

subsection \<open>Construction and peer parameters\<close>

definition SetPeerParameters ::
  "provider \<Rightarrow> KeyExchange \<Rightarrow> PublicKey option \<Rightarrow> slice \<Rightarrow> (error + unit) \<times> KeyExchange" where
  "SetPeerParameters P ke peerPub' peerUID =
     (case peerPub' of
        None \<Rightarrow> (Inr (), ke)
      | Some pp \<Rightarrow>
          (let peerUID' = (if len peerUID = 0 then defaultUID else peerUID) in
           if peerPub ke \<noteq> None then (Inl errPeerPubExists, ke)
           else (case privateKey ke of
                   None \<Rightarrow> (Inl Panic, ke)
                 | Some pk \<Rightarrow>
                     if Curve pp \<noteq> Curve pk then (Inl errPeerPubUnsupported, ke)
                     else (let ke1 = ke\<lparr>peerPub := Some pp\<rparr> in
                           case CalculateZA P pp (elems peerUID') of
                             Inl Panic \<Rightarrow> (Inl Panic, ke1)
                           | Inl e \<Rightarrow> (Inl e, ke1\<lparr>peerZ := None\<rparr>)
                           | Inr zb \<Rightarrow>
                               (Inr (), ke1\<lparr>peerZ := Some zb,
                                     peerSecret := Some \<lparr>Curve = Curve pp, X = None, Y = None\<rparr>\<rparr>)))))"

definition NewKeyExchange ::
  "provider \<Rightarrow> PrivateKey option \<Rightarrow> PublicKey option \<Rightarrow> slice \<Rightarrow> slice \<Rightarrow> int \<Rightarrow> bool
     \<Rightarrow> error + KeyExchange" where
  "NewKeyExchange P priv peerPub' uid peerUID keyLen genSignature' =
     (case priv of
        None \<Rightarrow> Inl Panic
      | Some pk \<Rightarrow>
          (case Curve pk of
             None \<Rightarrow> Inl Panic
           | Some c \<Rightarrow>
               (let one = 1;
                    w = (BitLen (Params_N P c) + 1) div 2 - 1;
                    w2' = Lsh one (uint_of_int w);
                    ke = \<lparr>genSignature = genSignature', keyLength = keyLen,
                          privateKey = Some pk, z = None, peerPub = None, peerZ = None,
                          r = None, secret = None, peerSecret = None,
                          w2 = Some w2', w2Minus1 = Some (w2' - one), v = None\<rparr>;
                    uid' = (if len uid = 0 then defaultUID else uid)
                in case CalculateZA P (PublicKey.truncate pk) (elems uid') of
                     Inl e \<Rightarrow> Inl e
                   | Inr za \<Rightarrow>
                       (case SetPeerParameters P (ke\<lparr>z := Some za\<rparr>) peerPub' peerUID of
                          (Inl e, _) \<Rightarrow> Inl e
                        | (Inr _, ke') \<Rightarrow>
                            Inr (ke'\<lparr>secret := Some \<lparr>Curve = Curve pk, X = None, Y = None\<rparr>,
                                     v := Some \<lparr>Curve = Curve pk, X = None, Y = None\<rparr>\<rparr>)))))"

subsection \<open>Initiation\<close>

definition initKeyExchange :: "provider \<Rightarrow> KeyExchange \<Rightarrow> int \<Rightarrow> (error + unit) \<times> KeyExchange" where
  "initKeyExchange P ke rv =
     (case (privateKey ke, secret ke) of
        (Some pk, Some s) \<Rightarrow>
          (case Curve pk of
             None \<Rightarrow> (Inl Panic, ke)
           | Some c \<Rightarrow>
               (let (sx, sy) = ScalarBaseMult P c (Bytes rv)
                in (Inr (), ke\<lparr>secret := Some (s\<lparr>X := Some sx, Y := Some sy\<rparr>), r := Some rv\<rparr>)))
      | _ \<Rightarrow> (Inl Panic, ke))"

definition InitKeyExchange ::
  "provider \<Rightarrow> KeyExchange \<Rightarrow> reader \<Rightarrow> (error + PublicKey option) \<times> KeyExchange" where
  "InitKeyExchange P ke rand =
     (case privateKey ke of
        None \<Rightarrow> (Inl Panic, ke)
      | Some pk \<Rightarrow>
          (case Curve pk of
             None \<Rightarrow> (Inl Panic, ke)
           | Some c \<Rightarrow>
               (case randFieldElement P c rand of
                  Inl e \<Rightarrow> (Inl e, ke)
                | Inr rv \<Rightarrow>
                    (case initKeyExchange P ke rv of
                       (Inl e, ke') \<Rightarrow> (Inl e, ke')
                     | (Inr _, ke') \<Rightarrow> (Inr (secret ke'), ke')))))"

subsection \<open>Confirmation tag and shared key\<close>

definition sign :: "provider \<Rightarrow> KeyExchange \<Rightarrow> bool \<Rightarrow> byte \<Rightarrow> error + byte list" where
  "sign P ke isResponder prefix =
     (case (v ke, peerSecret ke, secret ke) of
        (Some vv, Some ps, Some s) \<Rightarrow>
          (case (bigIntToBytes P (privateKey ke) (X vv),
                 bigIntToBytes P (privateKey ke) (X ps),
                 bigIntToBytes P (privateKey ke) (Y ps),
                 bigIntToBytes P (privateKey ke) (X s),
                 bigIntToBytes P (privateKey ke) (Y s),
                 bigIntToBytes P (privateKey ke) (Y vv)) of
             (Inr vx, Inr psx, Inr psy, Inr sx, Inr sy, Inr vy) \<Rightarrow>
               (let hash = sm3_New;
                    hash = hash_Write hash vx;
                    hash = (if isResponder
                            then (let hash = hash_Write hash (elems (peerZ ke));
                                      hash = hash_Write hash (elems (z ke));
                                      hash = hash_Write hash psx;
                                      hash = hash_Write hash psy;
                                      hash = hash_Write hash sx
                                  in hash_Write hash sy)
                            else (let hash = hash_Write hash (elems (z ke));
                                      hash = hash_Write hash (elems (peerZ ke));
                                      hash = hash_Write hash sx;
                                      hash = hash_Write hash sy;
                                      hash = hash_Write hash psx
                                  in hash_Write hash psy));
                    buffer = hash_Sum P hash;
                    hash = hash_Reset hash;
                    hash = hash_Write hash [prefix];
                    hash = hash_Write hash vy;
                    hash = hash_Write hash buffer
                in Inr (hash_Sum P hash))
           | _ \<Rightarrow> Inl Panic)
      | _ \<Rightarrow> Inl Panic)"

definition generateSharedKey :: "provider \<Rightarrow> KeyExchange \<Rightarrow> bool \<Rightarrow> error + byte list" where
  "generateSharedKey P ke isResponder =
     (case v ke of
        None \<Rightarrow> Inl Panic
      | Some vv \<Rightarrow>
          (case (bigIntToBytes P (privateKey ke) (X vv),
                 bigIntToBytes P (privateKey ke) (Y vv)) of
             (Inr vx, Inr vy) \<Rightarrow>
               (let buffer = [];
                    buffer = buffer @ vx;
                    buffer = buffer @ vy;
                    buffer = (if isResponder
                              then (buffer @ elems (peerZ ke)) @ elems (z ke)
                              else (buffer @ elems (z ke)) @ elems (peerZ ke))
                in sm3_Kdf P buffer (keyLength ke))
           | _ \<Rightarrow> Inl Panic))"

subsection \<open>The MQV step\<close>

definition avf :: "KeyExchange \<Rightarrow> int option \<Rightarrow> error + int" where
  "avf ke x =
     (case (w2Minus1 ke, x, w2 ke) of
        (Some m, Some x', Some w) \<Rightarrow> (let t = m AND x' in Inr (w + t))
      | _ \<Rightarrow> Inl Panic)"

definition mqv :: "provider \<Rightarrow> KeyExchange \<Rightarrow> (error + unit) \<times> KeyExchange" where
  "mqv P ke =
     (case (privateKey ke, secret ke, peerSecret ke, peerPub ke, v ke) of
        (Some pk, Some s, Some ps, Some pp, Some vv) \<Rightarrow>
          (case (avf ke (X s), r ke, D pk, Curve pk) of
             (Inr t, Some rv, Some d, Some c) \<Rightarrow>
               (case Mod (t * rv + d) (Params_N P c) of
                  Inl e \<Rightarrow> (Inl e, ke)
                | Inr t' \<Rightarrow>
                    (case (avf ke (X ps), X ps, Y ps, X pp, Y pp) of
                       (Inr x1, Some psx, Some psy, Some ppx, Some ppy) \<Rightarrow>
                         (let (x, y) = ScalarMult P c psx psy (Bytes x1);
                              (x, y) = Add P c ppx ppy x y;
                              (vx, vy) = ScalarMult P c x y (Bytes t')
                          in (Inr (), ke\<lparr>v := Some (vv\<lparr>X := Some vx, Y := Some vy\<rparr>)\<rparr>))
                     | _ \<Rightarrow> (Inl Panic, ke)))
           | _ \<Rightarrow> (Inl Panic, ke))
      | _ \<Rightarrow> (Inl Panic, ke))"

subsection \<open>Responder and confirmations\<close>

definition respondKeyExchange ::
  "provider \<Rightarrow> KeyExchange \<Rightarrow> PublicKey option \<Rightarrow> int
     \<Rightarrow> (error + PublicKey option \<times> slice) \<times> KeyExchange" where
  "respondKeyExchange P ke rA rv =
     (if peerPub ke = None then (Inl errNoPeerPub, ke)
      else (case (privateKey ke, rA) of
              (Some pk, Some ra) \<Rightarrow>
                (case (Curve pk, X ra, Y ra) of
                   (Some c, Some rax, Some ray) \<Rightarrow>
                     (if \<not> IsOnCurve P c rax ray then (Inl errInitiatorEphemeral, ke)
                      else (let ke1 = ke\<lparr>peerSecret := rA\<rparr> in
                            case secret ke1 of
                              None \<Rightarrow> (Inl Panic, ke1)
                            | Some s \<Rightarrow>
                                (let (sx, sy) = ScalarBaseMult P c (Bytes rv);
                                     ke2 = ke1\<lparr>secret := Some (s\<lparr>X := Some sx, Y := Some sy\<rparr>)\<rparr>;
                                     ke3 = ke2\<lparr>r := Some rv\<rparr>
                                 in case mqv P ke3 of
                                      (Inl e, ke4) \<Rightarrow> (Inl e, ke4)
                                    | (Inr _, ke4) \<Rightarrow>
                                        (case v ke4 of
                                           None \<Rightarrow> (Inl Panic, ke4)
                                         | Some vv \<Rightarrow>
                                             (case (X vv, Y vv) of
                                                (Some vx, Some vy) \<Rightarrow>
                                                  (if Sign vx = 0 \<and> Sign vy = 0
                                                   then (Inl errVInfinity, ke4)
                                                   else if \<not> genSignature ke4
                                                   then (Inr (secret ke4, None), ke4)
                                                   else (case sign P ke4 True 0x02 of
                                                           Inl e \<Rightarrow> (Inl e, ke4)
                                                         | Inr sg \<Rightarrow>
                                                             (Inr (secret ke4, Some sg), ke4)))
                                              | _ \<Rightarrow> (Inl Panic, ke4))))))
                 | _ \<Rightarrow> (Inl Panic, ke))
            | _ \<Rightarrow> (Inl Panic, ke)))"

definition RepondKeyExchange ::
  "provider \<Rightarrow> KeyExchange \<Rightarrow> reader \<Rightarrow> PublicKey option
     \<Rightarrow> (error + PublicKey option \<times> slice) \<times> KeyExchange" where
  "RepondKeyExchange P ke rand rA =
     (case privateKey ke of
        None \<Rightarrow> (Inl Panic, ke)
      | Some pk \<Rightarrow>
          (case Curve pk of
             None \<Rightarrow> (Inl Panic, ke)
           | Some c \<Rightarrow>
               (case randFieldElement P c rand of
                  Inl e \<Rightarrow> (Inl e, ke)
                | Inr rv \<Rightarrow> respondKeyExchange P ke rA rv)))"

definition ConfirmResponder ::
  "provider \<Rightarrow> KeyExchange \<Rightarrow> PublicKey option \<Rightarrow> slice
     \<Rightarrow> (error + byte list \<times> slice) \<times> KeyExchange" where
  "ConfirmResponder P ke rB sB =
     (if peerPub ke = None then (Inl errNoPeerPub, ke)
      else (case (privateKey ke, rB) of
              (Some pk, Some rb) \<Rightarrow>
                (case (Curve pk, X rb, Y rb) of
                   (Some c, Some rbx, Some rby) \<Rightarrow>
                     (if \<not> IsOnCurve P c rbx rby then (Inl errResponderEphemeral, ke)
                      else (let ke1 = ke\<lparr>peerSecret := rB\<rparr> in
                            case mqv P ke1 of
                              (Inl e, ke2) \<Rightarrow> (Inl e, ke2)
                            | (Inr _, ke2) \<Rightarrow>
                                (case v ke2 of
                                   None \<Rightarrow> (Inl Panic, ke2)
                                 | Some vv \<Rightarrow>
                                     (case (X vv, Y vv) of
                                        (Some vx, Some vy) \<Rightarrow>
                                          (if Sign vx = 0 \<and> Sign vy = 0
                                           then (Inl errUInfinity, ke2)
                                           else (case (if len sB > 0
                                                       then (case sign P ke2 False 0x02 of
                                                               Inl e \<Rightarrow> Some e
                                                             | Inr buffer \<Rightarrow>
                                                                 if ConstantTimeCompare buffer (elems sB) \<noteq> 1
                                                                 then Some errResponderSignature
                                                                 else None)
                                                       else None) of
                                                   Some e \<Rightarrow> (Inl e, ke2)
                                                 | None \<Rightarrow>
                                                     (case generateSharedKey P ke2 False of
                                                        Inl e \<Rightarrow> (Inl e, ke2)
                                                      | Inr key \<Rightarrow>
                                                          if \<not> genSignature ke2
                                                          then (Inr (key, None), ke2)
                                                          else (case sign P ke2 False 0x03 of
                                                                  Inl e \<Rightarrow> (Inl e, ke2)
                                                                | Inr sg \<Rightarrow>
                                                                    (Inr (key, Some sg), ke2)))))
                                      | _ \<Rightarrow> (Inl Panic, ke2)))))
                 | _ \<Rightarrow> (Inl Panic, ke))
            | _ \<Rightarrow> (Inl Panic, ke)))"

definition ConfirmInitiator :: "provider \<Rightarrow> KeyExchange \<Rightarrow> slice \<Rightarrow> error + byte list" where
  "ConfirmInitiator P ke s1 =
     (case (if s1 \<noteq> None
            then (case sign P ke True 0x03 of
                    Inl e \<Rightarrow> Some e
                  | Inr buffer \<Rightarrow>
                      if ConstantTimeCompare buffer (elems s1) \<noteq> 1
                      then Some errInitiatorSignature
                      else None)
            else None) of
        Some e \<Rightarrow> Inl e
      | None \<Rightarrow> generateSharedKey P ke True)"

subsection \<open>Sequences of operations\<close>

text \<open>
  A caller drives a session through its exported methods. \<open>run\<close> applies a sequence
  of calls and keeps the session each call leaves behind, whatever the call returned.
\<close>

datatype operation =
    OpSetPeerParameters "PublicKey option" slice
  | OpInitKeyExchange reader
  | OpRepondKeyExchange reader "PublicKey option"
  | OpConfirmResponder "PublicKey option" slice
  | OpConfirmInitiator slice
  | OpDestroy

fun step :: "provider \<Rightarrow> KeyExchange \<Rightarrow> operation \<Rightarrow> KeyExchange" where
  "step P ke (OpSetPeerParameters pp uid) = snd (SetPeerParameters P ke pp uid)"
| "step P ke (OpInitKeyExchange rand) = snd (InitKeyExchange P ke rand)"
| "step P ke (OpRepondKeyExchange rand rA) = snd (RepondKeyExchange P ke rand rA)"
| "step P ke (OpConfirmResponder rB sB) = snd (ConfirmResponder P ke rB sB)"
| "step P ke (OpConfirmInitiator s1) = ke"
| "step P ke OpDestroy = Destroy ke"

definition run :: "provider \<Rightarrow> KeyExchange \<Rightarrow> operation list \<Rightarrow> KeyExchange" where
  "run P ke ops = foldl (step P) ke ops"

section \<open>The specification's reference definitions\<close>

text \<open>
  These follow the words of the specification, not the code: the associative value,
  the five steps of the combination, the fixed-width coordinate and the two-stage tag.
  A scalar reaches the curve provider as the big-endian bytes of an integer;
  \<open>from_bytes\<close> reads them back.
\<close>

definition from_bytes :: "byte list \<Rightarrow> int" where
  "from_bytes bs = foldl (\<lambda>a b. a * 256 + uint b) 0 bs"

definition AssociativeValue :: "nat \<Rightarrow> int \<Rightarrow> int" where
  "AssociativeValue w x = 2 ^ w + (x AND (2 ^ w - 1))"

definition window :: "int \<Rightarrow> int" where
  "window order = (BitLen order + 1) div 2 - 1"

definition scalarMultiply :: "provider \<Rightarrow> curve \<Rightarrow> int \<times> int \<Rightarrow> int \<Rightarrow> int \<times> int" where
  "scalarMultiply P c pt k = ScalarMult P c (fst pt) (snd pt) (Bytes k)"

definition scalarBaseMultiply :: "provider \<Rightarrow> curve \<Rightarrow> int \<Rightarrow> int \<times> int" where
  "scalarBaseMultiply P c k = ScalarBaseMult P c (Bytes k)"

definition pointAdd :: "provider \<Rightarrow> curve \<Rightarrow> int \<times> int \<Rightarrow> int \<times> int \<Rightarrow> int \<times> int" where
  "pointAdd P c p q = Add P c (fst p) (snd p) (fst q) (snd q)"

definition Combine ::
  "provider \<Rightarrow> curve \<Rightarrow> nat \<Rightarrow> int \<Rightarrow> int \<Rightarrow> int \<Rightarrow> int \<times> int \<Rightarrow> int \<times> int \<Rightarrow> int \<times> int" where
  "Combine P c w ownEphemeralX rv d peerLongTermPoint peerEphemeralPoint =
     (let t = AssociativeValue w ownEphemeralX;
          t = (t * rv + d) mod Params_N P c;
          x1 = AssociativeValue w (fst peerEphemeralPoint);
          basePoint = pointAdd P c peerLongTermPoint (scalarMultiply P c peerEphemeralPoint x1)
      in scalarMultiply P c basePoint t)"

definition fixedWidth :: "nat \<Rightarrow> int \<Rightarrow> byte list" where
  "fixedWidth n x = replicate (n - length (Bytes x)) 0 @ Bytes x"

definition ComputeTag ::
  "provider \<Rightarrow> nat \<Rightarrow> bool \<Rightarrow> byte \<Rightarrow> int \<times> int \<Rightarrow> byte list \<Rightarrow> byte list
     \<Rightarrow> int \<times> int \<Rightarrow> int \<times> int \<Rightarrow> byte list" where
  "ComputeTag P n isResponderRole prefixByte vpt ownZ peerZ' ownEph peerEph =
     (let inner = sm3_Sum P
            (fixedWidth n (fst vpt) @
             (if isResponderRole
              then peerZ' @ ownZ @ fixedWidth n (fst peerEph) @ fixedWidth n (snd peerEph) @
                   fixedWidth n (fst ownEph) @ fixedWidth n (snd ownEph)
              else ownZ @ peerZ' @ fixedWidth n (fst ownEph) @ fixedWidth n (snd ownEph) @
                   fixedWidth n (fst peerEph) @ fixedWidth n (snd peerEph)))
      in sm3_Sum P ([prefixByte] @ fixedWidth n (snd vpt) @ inner))"

subsection \<open>The two sessions of one exchange\<close>

text \<open>
  The initiator's session and the responder's session of one exchange are on the same
  curve and hold the same combination point; the identity digest and the ephemeral
  point that one of them holds as its own, the other holds as its peer's.
\<close>

definition mirrored :: "KeyExchange \<Rightarrow> KeyExchange \<Rightarrow> bool" where
  "mirrored kI kR =
     ((case (privateKey kI, privateKey kR) of
         (Some pkI, Some pkR) \<Rightarrow> Curve pkI = Curve pkR
       | _ \<Rightarrow> False) \<and>
      v kR = v kI \<and> secret kR = peerSecret kI \<and> peerSecret kR = secret kI \<and>
      elems (z kR) = elems (peerZ kI) \<and> elems (peerZ kR) = elems (z kI))"

subsection \<open>What the key agreement asks of its collaborators\<close>

text \<open>
  The agreement of the two sides rests on the curve provider computing in a group: the
  multiples of the base point add and multiply as the scalars do, the base point has an
  order dividing \<open>N\<close>, a multiple by a scalar in \<open>[1, N - 1]\<close> is on the curve, and every
  coordinate is a field element of the provider's byte width. The scalar draw returns
  a scalar in \<open>[1, N - 1]\<close> or an error. A key pair is valid when its scalar is in
  \<open>[1, N - 1]\<close> and its point is that multiple of the base point.
\<close>

definition curve_laws :: "provider \<Rightarrow> curve \<Rightarrow> bool" where
  "curve_laws P c \<longleftrightarrow>
     0 < Params_N P c \<and> BitLen (Params_N P c) < 2 ^ 63 \<and>
     (\<forall>a b. 0 \<le> a \<and> 0 \<le> b \<longrightarrow>
        pointAdd P c (scalarBaseMultiply P c a) (scalarBaseMultiply P c b) =
          scalarBaseMultiply P c (a + b)) \<and>
     (\<forall>a k. 0 \<le> a \<and> 0 \<le> k \<longrightarrow>
        scalarMultiply P c (scalarBaseMultiply P c a) k = scalarBaseMultiply P c (a * k)) \<and>
     (\<forall>a. 0 \<le> a \<longrightarrow>
        scalarBaseMultiply P c (a mod Params_N P c) = scalarBaseMultiply P c a) \<and>
     (\<forall>a. 0 < a \<and> a < Params_N P c \<longrightarrow>
        IsOnCurve P c (fst (scalarBaseMultiply P c a)) (snd (scalarBaseMultiply P c a))) \<and>
     (\<forall>a. 0 \<le> a \<longrightarrow>
        0 \<le> fst (scalarBaseMultiply P c a) \<and>
        fst (scalarBaseMultiply P c a) < 256 ^ fieldByteLen P c \<and>
        0 \<le> snd (scalarBaseMultiply P c a) \<and>
        snd (scalarBaseMultiply P c a) < 256 ^ fieldByteLen P c) \<and>
     (\<forall>rand k. randFieldElement P c rand = Inr k \<longrightarrow> 0 < k \<and> k < Params_N P c)"

definition valid_key :: "provider \<Rightarrow> curve \<Rightarrow> PrivateKey \<Rightarrow> bool" where
  "valid_key P c priv =
     (case D priv of
        None \<Rightarrow> False
      | Some d \<Rightarrow>
          Curve priv = Some c \<and> 0 < d \<and> d < Params_N P c \<and>
          X priv = Some (fst (scalarBaseMultiply P c d)) \<and>
          Y priv = Some (snd (scalarBaseMultiply P c d)))"

section \<open>A small instance of the collaborators\<close>

text \<open>
  The definitions are evaluated on concrete inputs with this instance: the pairs of
  residues modulo 11 under componentwise addition, with the base point (1, 2) of order
  11 and the pair (0, 0) as the point at infinity, a digest that keeps the first 32 bytes
  written (zero-padded), a key derivation of the same kind, an identity digest that
  refuses a UID of 8192 bytes or more, and a scalar draw from the first byte read.
\<close>

definition demo :: provider where
  "demo =
     \<lparr>Params_N = (\<lambda>c. 11),
      fieldByteLen = (\<lambda>c. 1),
      IsOnCurve = (\<lambda>c x y. 0 \<le> x \<and> x < 11 \<and> 0 \<le> y \<and> y < 11 \<and> \<not> (x = 0 \<and> y = 0)),
      Add = (\<lambda>c x1 y1 x2 y2. ((x1 + x2) mod 11, (y1 + y2) mod 11)),
      ScalarMult = (\<lambda>c x y k. ((from_bytes k * x) mod 11, (from_bytes k * y) mod 11)),
      ScalarBaseMult = (\<lambda>c k. ((from_bytes k * 1) mod 11, (from_bytes k * 2) mod 11)),
      sm3_Sum = (\<lambda>bs. take 32 (bs @ replicate 32 0)),
      sm3_Kdf = (\<lambda>bs n. if n < 0 then Inl Panic else Inr (take (nat n) (bs @ replicate (nat n) 0))),
      CalculateZA = (\<lambda>pub uid.
         if 8192 \<le> length uid then Inl (Error ''sm2: the uid is too long'')
         else (case (X pub, Y pub) of
                 (Some x, Some y) \<Rightarrow> Inr (take 32 (Bytes x @ Bytes y @ uid @ replicate 32 0))
               | _ \<Rightarrow> Inl Panic)),
      randFieldElement = (\<lambda>c rd.
         (case rd of [] \<Rightarrow> Inl (Error ''EOF'') | b # _ \<Rightarrow> Inr (1 + uint b mod 10)))\<rparr>"

definition privA :: PrivateKey where
  "privA = \<lparr>Curve = Some 0, X = Some 3, Y = Some 6, D = Some 3\<rparr>"

definition privB :: PrivateKey where
  "privB = \<lparr>Curve = Some 0, X = Some 5, Y = Some 10, D = Some 5\<rparr>"

definition pubA :: PublicKey where
  "pubA = \<lparr>Curve = Some 0, X = Some 3, Y = Some 6\<rparr>"

definition pubB :: PublicKey where
  "pubB = \<lparr>Curve = Some 0, X = Some 5, Y = Some 10\<rparr>"

definition digestA :: "byte list" where
  "digestA = [3, 6] @ elems defaultUID @ replicate 14 0"

definition digestB :: "byte list" where
  "digestB = [5, 10] @ elems defaultUID @ replicate 14 0"

definition emptyPoint :: PublicKey where
  "emptyPoint = \<lparr>Curve = Some 0, X = None, Y = None\<rparr>"

definition keA0 :: KeyExchange where
  \<comment> \<open>The initiator's session as \<open>NewKeyExchange demo (Some privA) (Some pubB)\<close> builds it.\<close>
  "keA0 = \<lparr>genSignature = True, keyLength = 16, privateKey = Some privA,
           z = Some digestA, peerPub = Some pubB, peerZ = Some digestB, r = None,
           secret = Some emptyPoint, peerSecret = Some emptyPoint,
           w2 = Some 2, w2Minus1 = Some 1, v = Some emptyPoint\<rparr>"

definition keB0 :: KeyExchange where
  \<comment> \<open>The responder's session as \<open>NewKeyExchange demo (Some privB) (Some pubA)\<close> builds it.\<close>
  "keB0 = \<lparr>genSignature = True, keyLength = 16, privateKey = Some privB,
           z = Some digestB, peerPub = Some pubA, peerZ = Some digestA, r = None,
           secret = Some emptyPoint, peerSecret = Some emptyPoint,
           w2 = Some 2, w2Minus1 = Some 1, v = Some emptyPoint\<rparr>"

definition keA1 :: KeyExchange where
  \<comment> \<open>The initiator's session after \<open>InitKeyExchange\<close> has drawn the scalar 2.\<close>
  "keA1 = keA0\<lparr>secret := Some \<lparr>Curve = Some 0, X = Some 2, Y = Some 4\<rparr>, r := Some 2\<rparr>"

definition keB1 :: KeyExchange where
  \<comment> \<open>The responder's session after \<open>RepondKeyExchange\<close> has drawn the scalar 4.\<close>
  "keB1 = keB0\<lparr>peerSecret := Some \<lparr>Curve = Some 0, X = Some 2, Y = Some 4\<rparr>,
               secret := Some \<lparr>Curve = Some 0, X = Some 4, Y = Some 8\<rparr>, r := Some 4,
               v := Some \<lparr>Curve = Some 0, X = Some 3, Y = Some 6\<rparr>\<rparr>"

definition keA2 :: KeyExchange where
  \<comment> \<open>The initiator's session after \<open>ConfirmResponder\<close>.\<close>
  "keA2 = keA1\<lparr>peerSecret := Some \<lparr>Curve = Some 0, X = Some 4, Y = Some 8\<rparr>,
               v := Some \<lparr>Curve = Some 0, X = Some 3, Y = Some 6\<rparr>\<rparr>"

definition keV :: KeyExchange where
  \<comment> \<open>A responder with the key \<open>privA\<close> after it has drawn the scalar 4: the implicit
      signature \<open>(2 * 4 + 3) mod 11\<close> is 0 and the combination point is (0, 0).\<close>
  "keV = keA0\<lparr>peerSecret := Some \<lparr>Curve = Some 0, X = Some 2, Y = Some 4\<rparr>,
              secret := Some \<lparr>Curve = Some 0, X = Some 4, Y = Some 8\<rparr>, r := Some 4,
              v := Some \<lparr>Curve = Some 0, X = Some 0, Y = Some 0\<rparr>\<rparr>"

definition keI :: KeyExchange where
  \<comment> \<open>An initiator with the key \<open>privA\<close> after \<open>InitKeyExchange\<close> has drawn the scalar 4.\<close>
  "keI = keA0\<lparr>secret := Some \<lparr>Curve = Some 0, X = Some 4, Y = Some 8\<rparr>, r := Some 4\<rparr>"

definition keU :: KeyExchange where
  \<comment> \<open>That initiator after \<open>ConfirmResponder\<close> has found the combination point (0, 0).\<close>
  "keU = keI\<lparr>peerSecret := Some \<lparr>Curve = Some 0, X = Some 2, Y = Some 4\<rparr>,
              v := Some \<lparr>Curve = Some 0, X = Some 0, Y = Some 0\<rparr>\<rparr>"

definition keN :: KeyExchange where
  \<comment> \<open>The session as \<open>NewKeyExchange demo (Some privA) None\<close> builds it: no peer key.\<close>
  "keN = keA0\<lparr>peerPub := None, peerZ := None, peerSecret := None\<rparr>"

section \<open>Facts about the Go primitives\<close>

declare nat_bytes.simps [simp del] nat_bitlen.simps [simp del]

lemma nat_bytes_0: "nat_bytes 0 = []"
  by (simp add: nat_bytes.simps)

lemma nat_bytes_pos: "0 < n \<Longrightarrow> nat_bytes n = nat_bytes (n div 256) @ [of_nat (n mod 256)]"
  by (subst nat_bytes.simps) simp

lemma from_bytes_snoc: "from_bytes (bs @ [b]) = from_bytes bs * 256 + uint b"
  by (simp add: from_bytes_def)

lemma uint_byte_of_nat: "uint (of_nat (n mod 256) :: byte) = int (n mod 256)"
proof -
  have "unat (of_nat (n mod 256) :: byte) = n mod 256"
    by (simp add: unat_of_nat)
  then show ?thesis
    by (metis of_nat_unat)
qed

lemma from_bytes_nat_bytes: "from_bytes (nat_bytes n) = int n"
proof (induction n rule: nat_bytes.induct)
  case (1 n)
  show ?case
  proof (cases "n = 0")
    case True
    then show ?thesis by (simp add: nat_bytes_0 from_bytes_def)
  next
    case False
    then have "from_bytes (nat_bytes n) = from_bytes (nat_bytes (n div 256)) * 256 + int (n mod 256)"
      by (simp add: nat_bytes_pos from_bytes_snoc uint_byte_of_nat)
    also have "\<dots> = int (n div 256) * 256 + int (n mod 256)"
      using 1 False by simp
    also have "\<dots> = int n"
      by (metis div_mult_mod_eq of_nat_add of_nat_mult of_nat_numeral)
    finally show ?thesis .
  qed
qed

lemma from_bytes_Bytes: "0 \<le> k \<Longrightarrow> from_bytes (Bytes k) = k"
  by (simp add: Bytes_def from_bytes_nat_bytes)

lemma length_nat_bytes: "n < 256 ^ m \<Longrightarrow> length (nat_bytes n) \<le> m"
proof (induction n arbitrary: m rule: nat_bytes.induct)
  case (1 n)
  show ?case
  proof (cases "n = 0")
    case True
    then show ?thesis by (simp add: nat_bytes_0)
  next
    case False
    with 1(2) obtain m' where m: "m = Suc m'"
      by (cases m) auto
    with 1(2) have "n div 256 < 256 ^ m'"
      by (simp add: less_mult_imp_div_less mult.commute)
    with 1(1) False have "length (nat_bytes (n div 256)) \<le> m'" by blast
    with False m show ?thesis by (simp add: nat_bytes_pos)
  qed
qed

lemma length_Bytes: "0 \<le> x \<Longrightarrow> x < 256 ^ m \<Longrightarrow> length (Bytes x) \<le> m"
  unfolding Bytes_def
  by (rule length_nat_bytes) (simp add: nat_less_iff)

lemma xor_or_loop_mono: "xor_or_loop xs ys acc = 0 \<Longrightarrow> acc = 0"
  by (induction xs ys acc rule: xor_or_loop.induct) (auto simp: or_eq_0_iff)

lemma xor_or_loop_eq:
  "length xs = length ys \<Longrightarrow> xor_or_loop xs ys 0 = 0 \<longleftrightarrow> xs = ys"
proof (induction xs ys rule: list_induct2)
  case Nil
  then show ?case by simp
next
  case (Cons x xs y ys)
  show ?case
  proof (cases "x = y")
    case True
    with Cons show ?thesis by simp
  next
    case False
    then have "x XOR y \<noteq> 0"
      by (metis bit.xor_left_self xor.right_neutral)
    then have "xor_or_loop xs ys (0 OR (x XOR y)) \<noteq> 0"
      using xor_or_loop_mono by force
    with False show ?thesis by simp
  qed
qed

lemma ConstantTimeCompare_iff: "ConstantTimeCompare xs ys = 1 \<longleftrightarrow> xs = ys"
  by (auto simp: ConstantTimeCompare_def ConstantTimeByteEq_def xor_or_loop_eq)

lemma nat_bitlen_pos: "0 < n \<Longrightarrow> 0 < nat_bitlen n"
  by (subst nat_bitlen.simps) simp

lemma BitLen_pos: "x \<noteq> 0 \<Longrightarrow> 1 \<le> BitLen x"
  using nat_bitlen_pos [of "nat \<bar>x\<bar>"] by (simp add: BitLen_def)

section \<open>Destroy\<close>

lemma destroyBytes_loop_length: "length (destroyBytes_loop is bs) = length bs"
  by (induction "is" arbitrary: bs) simp_all

lemma destroyBytes_loop_nth:
  "k < length bs \<Longrightarrow> destroyBytes_loop is bs ! k = (if k \<in> set is then 0 else bs ! k)"
proof (induction "is" arbitrary: bs)
  case Nil
  then show ?case by simp
next
  case (Cons i "is")
  then show ?case by (auto simp: nth_list_update)
qed

lemma destroyBytes_loop_all:
  "destroyBytes_loop [0..<length bs] bs = replicate (length bs) 0"
  by (rule nth_equalityI) (simp_all add: destroyBytes_loop_length destroyBytes_loop_nth)

lemma elems_destroyBytes: "elems (destroyBytes s) = replicate (len s) 0"
  by (cases s) (simp_all add: elems_def len_def destroyBytes_def destroyBytes_loop_all)

lemma len_destroyBytes: "len (destroyBytes s) = len s"
  by (cases s) (simp_all add: len_def destroyBytes_def destroyBytes_loop_length)

lemma Destroy_fields:
  "z (Destroy ke) = destroyBytes (z ke)"
  "peerZ (Destroy ke) = destroyBytes (peerZ ke)"
  "r (Destroy ke) = destroyBigInt (r ke)"
  "v (Destroy ke) = destroyPublicKey (v ke)"
  by (simp_all add: Destroy_def Let_def)

text \<open>
  Claim C9. For every session state, after \<open>Destroy\<close> every byte of the local identity
  digest \<open>z\<close> and of the peer identity digest \<open>peerZ\<close> is zero (and both keep their
  length), the ephemeral scalar \<open>r\<close>, when it is not nil, is 0, and the coordinates
  \<open>X\<close> and \<open>Y\<close> of the combination point \<open>v\<close>, when they are not nil, are 0.
\<close>

theorem Destroy_wipes:
  "(\<forall>b \<in> set (elems (z (Destroy ke))). b = 0) \<and>
   (\<forall>b \<in> set (elems (peerZ (Destroy ke))). b = 0) \<and>
   len (z (Destroy ke)) = len (z ke) \<and>
   len (peerZ (Destroy ke)) = len (peerZ ke) \<and>
   (r ke \<noteq> None \<longrightarrow> r (Destroy ke) = Some 0) \<and>
   (\<forall>p. v ke = Some p \<longrightarrow>
      (\<exists>q. v (Destroy ke) = Some q \<and>
           (X p \<noteq> None \<longrightarrow> X q = Some 0) \<and>
           (Y p \<noteq> None \<longrightarrow> Y q = Some 0)))"
  by (auto simp: Destroy_fields elems_destroyBytes len_destroyBytes destroyBigInt_def
      destroyPublicKey_def split: option.splits)

theorem Destroy_wipes_witness:
  "r keA2 = Some 2 \<and> r (Destroy keA2) = Some 0 \<and>
   v keA2 = Some \<lparr>Curve = Some 0, X = Some 3, Y = Some 6\<rparr> \<and>
   v (Destroy keA2) = Some \<lparr>Curve = Some 0, X = Some 0, Y = Some 0\<rparr> \<and>
   len (z (Destroy keA2)) = 32 \<and> len (peerZ (Destroy keA2)) = 32 \<and>
   set (elems (z (Destroy keA2))) = {0} \<and>
   set (elems (peerZ (Destroy keA2))) = {0}"
proof -
  have rv: "r keA2 = Some 2"
    and vv: "v keA2 = Some \<lparr>Curve = Some 0, X = Some 3, Y = Some 6\<rparr>"
    and lz: "len (z keA2) = 32" and lp: "len (peerZ keA2) = 32"
    by (simp_all add: keA2_def keA1_def keA0_def len_def digestA_def digestB_def
        defaultUID_def elems_def)
  have ne: "elems s \<noteq> []" if "len s = 32" for s
    using that by (cases s) (auto simp: len_def elems_def)
  have cv: "Curve q = Some 0" if "v (Destroy keA2) = Some q" for q
    using that vv by (auto simp: Destroy_fields destroyPublicKey_def)
  from Destroy_wipes [of keA2] rv vv lz lp
  have "r (Destroy keA2) = Some 0"
    and "\<exists>q. v (Destroy keA2) = Some q \<and> X q = Some 0 \<and> Y q = Some 0"
    and lz': "len (z (Destroy keA2)) = 32" and lp': "len (peerZ (Destroy keA2)) = 32"
    and "\<forall>b \<in> set (elems (z (Destroy keA2))). b = 0"
    and "\<forall>b \<in> set (elems (peerZ (Destroy keA2))). b = 0"
    by simp_all
  moreover have "set xs = {0}" if "xs \<noteq> []" "\<forall>b \<in> set xs. b = 0" for xs :: "byte list"
    using that by (cases xs) auto
  ultimately show ?thesis
    using rv vv ne [OF lz'] ne [OF lp'] cv by auto
qed

section \<open>The window constants\<close>


lemma mqv_consts: "w2 (snd (mqv P ke)) = w2 ke \<and> w2Minus1 (snd (mqv P ke)) = w2Minus1 ke"
  by (simp add: mqv_def Let_def split: option.splits sum.splits prod.splits)

lemma SetPeerParameters_consts:
  "w2 (snd (SetPeerParameters P ke pp uid)) = w2 ke \<and>
   w2Minus1 (snd (SetPeerParameters P ke pp uid)) = w2Minus1 ke"
  by (simp add: SetPeerParameters_def Let_def split: option.splits sum.splits error.splits)

lemma InitKeyExchange_consts:
  "w2 (snd (InitKeyExchange P ke rand)) = w2 ke \<and>
   w2Minus1 (snd (InitKeyExchange P ke rand)) = w2Minus1 ke"
  by (simp add: InitKeyExchange_def initKeyExchange_def Let_def
      split: option.splits sum.splits prod.splits)

lemma respondKeyExchange_consts:
  "w2 (snd (respondKeyExchange P ke rA rv)) = w2 ke \<and>
   w2Minus1 (snd (respondKeyExchange P ke rA rv)) = w2Minus1 ke"
  by (simp add: respondKeyExchange_def Let_def case_prod_beta mqv_consts
      split: option.splits sum.splits)

lemma RepondKeyExchange_consts:
  "w2 (snd (RepondKeyExchange P ke rand rA)) = w2 ke \<and>
   w2Minus1 (snd (RepondKeyExchange P ke rand rA)) = w2Minus1 ke"
  by (simp add: RepondKeyExchange_def respondKeyExchange_consts split: option.splits sum.splits)

lemma ConfirmResponder_consts:
  "w2 (snd (ConfirmResponder P ke rB sB)) = w2 ke \<and>
   w2Minus1 (snd (ConfirmResponder P ke rB sB)) = w2Minus1 ke"
  by (simp add: ConfirmResponder_def Let_def case_prod_beta mqv_consts
      split: option.splits sum.splits)

lemma Destroy_consts: "w2 (Destroy ke) = w2 ke \<and> w2Minus1 (Destroy ke) = w2Minus1 ke"
  by (simp add: Destroy_def Let_def)

lemma step_consts: "w2 (step P ke op) = w2 ke \<and> w2Minus1 (step P ke op) = w2Minus1 ke"
  by (cases op)
     (simp_all add: SetPeerParameters_consts InitKeyExchange_consts RepondKeyExchange_consts
        ConfirmResponder_consts Destroy_consts)

lemma run_consts: "w2 (run P ke ops) = w2 ke \<and> w2Minus1 (run P ke ops) = w2Minus1 ke"
  unfolding run_def
  by (induction ops arbitrary: ke) (simp_all add: step_consts)

lemma SetPeerParameters_consts_dest:
  "SetPeerParameters P k pp uid = (res, k') \<Longrightarrow> w2 k' = w2 k \<and> w2Minus1 k' = w2Minus1 k"
  using SetPeerParameters_consts [of P k pp uid] by simp

lemma NewKeyExchange_consts:
  assumes "NewKeyExchange P (Some pk) pp uid puid keyLen gs = Inr ke"
    and "Curve pk = Some c"
  shows "w2 ke = Some (Lsh 1 (uint_of_int (window (Params_N P c))))"
    and "w2Minus1 ke = Some (Lsh 1 (uint_of_int (window (Params_N P c))) - 1)"
  using assms
  by (auto simp: NewKeyExchange_def Let_def window_def split: sum.splits prod.splits
      dest!: SetPeerParameters_consts_dest)

lemma window_nonneg:
  assumes "n \<noteq> 0" "BitLen n < 2 ^ 63"
  shows "uint_of_int (window n) = nat (window n)" and "0 \<le> window n"
proof -
  have "1 \<le> BitLen n" using assms(1) by (rule BitLen_pos)
  then show "0 \<le> window n" by (simp add: window_def)
  moreover have "window n < 2 ^ 64" using assms(2) by (simp add: window_def)
  ultimately show "uint_of_int (window n) = nat (window n)"
    by (simp add: uint_of_int_def)
qed

lemma avf_eq:
  assumes "w2 ke = Some (2 ^ w)" "w2Minus1 ke = Some (2 ^ w - 1)"
  shows "avf ke (Some x) = Inr (AssociativeValue w x)"
  by (simp add: avf_def assms AssociativeValue_def and.commute)

lemma AssociativeValue_range:
  "2 ^ w \<le> AssociativeValue w x" "AssociativeValue w x \<le> 2 ^ (w + 1) - 1"
proof -
  have m: "(0::int) \<le> 2 ^ w - 1" by simp
  have "0 \<le> x AND (2 ^ w - 1)" using m by simp
  moreover have "x AND (2 ^ w - 1) \<le> 2 ^ w - 1"
    using m by (rule AND_upper2)
  ultimately show "2 ^ w \<le> AssociativeValue w x" and "AssociativeValue w x \<le> 2 ^ (w + 1) - 1"
    by (simp_all add: AssociativeValue_def)
qed

lemma window_256:
  \<comment> \<open>The source's comments for a 256-bit order: \<open>w = 127\<close> and
      \<open>w2 = 0x80000000000000000000000000000000\<close>.\<close>
  assumes "BitLen n = 256"
  shows "window n = 127"
    and "Lsh 1 (uint_of_int (window n)) = 0x80000000000000000000000000000000"
    and "Lsh 1 (uint_of_int (window n)) - 1 = 0x7fffffffffffffffffffffffffffffff"
  using assms by (simp_all add: window_def uint_of_int_def Lsh_def push_bit_eq_mult)

section \<open>The instance, evaluated\<close>

lemma demo_New_A: "NewKeyExchange demo (Some privA) (Some pubB) None None 16 True = Inr keA0"
  by code_simp

lemma demo_New_B: "NewKeyExchange demo (Some privB) (Some pubA) None None 16 True = Inr keB0"
  by code_simp

lemma demo_Init_A:
  "InitKeyExchange demo keA0 [1] = (Inr (Some \<lparr>Curve = Some 0, X = Some 2, Y = Some 4\<rparr>), keA1)"
  by code_simp

lemma demo_Respond_B:
  "RepondKeyExchange demo keB0 [3] (Some \<lparr>Curve = Some 0, X = Some 2, Y = Some 4\<rparr>) =
     (Inr (Some \<lparr>Curve = Some 0, X = Some 4, Y = Some 8\<rparr>,
           Some ([2, 6, 3, 3, 6] @ elems defaultUID @ replicate 11 0)), keB1)"
  by code_simp

lemma demo_BitLen: "BitLen 11 = 4"
  by code_simp

section \<open>Claim C8\<close>

text \<open>
  Claim C8. A session that \<open>NewKeyExchange\<close> returns for a curve of order \<open>N > 0\<close>
  (whose bit length is a Go \<^verbatim>\<open>int\<close>) holds \<open>w2 = 2 ^ w\<close> and \<open>w2Minus1 = 2 ^ w - 1\<close>
  with \<open>w = (BitLen N + 1) div 2 - 1\<close>; no sequence of later operations changes the two
  constants; and in every later state \<open>avf x\<close> is \<open>2 ^ w + (x AND (2 ^ w - 1))\<close>, a
  value between \<open>2 ^ w\<close> and \<open>2 ^ (w + 1) - 1\<close>.
\<close>

theorem window_constants:
  assumes "NewKeyExchange P (Some pk) pp uid puid keyLen gs = Inr ke"
    and "Curve pk = Some c"
    and "0 < Params_N P c"
    and "BitLen (Params_N P c) < 2 ^ 63"
  shows "\<exists>w. int w = (BitLen (Params_N P c) + 1) div 2 - 1 \<and>
             w2 ke = Some (2 ^ w) \<and> w2Minus1 ke = Some (2 ^ w - 1) \<and>
             (\<forall>ops. w2 (run P ke ops) = Some (2 ^ w) \<and>
                    w2Minus1 (run P ke ops) = Some (2 ^ w - 1)) \<and>
             (\<forall>ops x. \<exists>a. avf (run P ke ops) (Some x) = Inr a \<and>
                    a = 2 ^ w + (x AND (2 ^ w - 1)) \<and> 2 ^ w \<le> a \<and> a \<le> 2 ^ (w + 1) - 1)"
proof -
  define w where "w = nat (window (Params_N P c))"
  have n0: "Params_N P c \<noteq> 0" using assms(3) by simp
  have u: "uint_of_int (window (Params_N P c)) = w"
    and w: "int w = (BitLen (Params_N P c) + 1) div 2 - 1"
    using window_nonneg [OF n0 assms(4)] by (simp_all add: w_def window_def)
  have k: "w2 ke = Some (2 ^ w)" "w2Minus1 ke = Some (2 ^ w - 1)"
    using NewKeyExchange_consts [OF assms(1,2)] by (simp_all add: u Lsh_def push_bit_eq_mult)
  have r: "w2 (run P ke ops) = Some (2 ^ w)" "w2Minus1 (run P ke ops) = Some (2 ^ w - 1)" for ops
    using run_consts [of P ke ops] k by simp_all
  have "\<exists>a. avf (run P ke ops) (Some x) = Inr a \<and>
            a = 2 ^ w + (x AND (2 ^ w - 1)) \<and> 2 ^ w \<le> a \<and> a \<le> 2 ^ (w + 1) - 1" for ops x
    using avf_eq [OF r, of ops x] AssociativeValue_range [of w x]
    by (simp add: AssociativeValue_def)
  with w k r show ?thesis by blast
qed

theorem window_constants_witness:
  "NewKeyExchange demo (Some privA) (Some pubB) None None 16 True = Inr keA0 \<and>
   Params_N demo 0 = 11 \<and> w2 keA0 = Some 2 \<and> w2Minus1 keA0 = Some 1 \<and>
   w2 (run demo keA0 [OpInitKeyExchange [1], OpDestroy]) = Some 2 \<and>
   w2Minus1 (run demo keA0 [OpInitKeyExchange [1], OpDestroy]) = Some 1 \<and>
   avf (run demo keA0 [OpInitKeyExchange [1], OpDestroy]) (Some 7) = Inr 3"
proof -
  have c: "Curve privA = Some 0" by (simp add: privA_def)
  have n: "Params_N demo 0 = 11" by (simp add: demo_def)
  have p: "0 < Params_N demo 0" and b: "BitLen (Params_N demo 0) < 2 ^ 63"
    by (simp_all add: n demo_BitLen)
  from window_constants [OF demo_New_A c p b]
  obtain w where w: "int w = (BitLen (Params_N demo 0) + 1) div 2 - 1"
    and k: "w2 keA0 = Some (2 ^ w)" "w2Minus1 keA0 = Some (2 ^ w - 1)"
    and r: "\<And>ops. w2 (run demo keA0 ops) = Some (2 ^ w) \<and>
                    w2Minus1 (run demo keA0 ops) = Some (2 ^ w - 1)"
    and a: "\<And>ops x. \<exists>a. avf (run demo keA0 ops) (Some x) = Inr a \<and>
                    a = 2 ^ w + (x AND (2 ^ w - 1)) \<and> 2 ^ w \<le> a \<and> a \<le> 2 ^ (w + 1) - 1"
    by blast
  from w have w1: "w = 1" by (simp add: n demo_BitLen)
  have "(7::int) AND 1 = 1" by simp
  with a [of "[OpInitKeyExchange [1], OpDestroy]" 7] w1
  have "avf (run demo keA0 [OpInitKeyExchange [1], OpDestroy]) (Some 7) = Inr 3" by auto
  with demo_New_A n k r [of "[OpInitKeyExchange [1], OpDestroy]"] w1 show ?thesis by simp
qed

section \<open>Claim C2\<close>


lemma AssociativeValue_pos: "0 < AssociativeValue w x"
  using AssociativeValue_range(1) [of w x]
  by (smt (verit) zero_less_power)

lemma mqv_Combine:
  assumes "privateKey ke = Some pk" and "Curve pk = Some c" and "D pk = Some d"
    and "r ke = Some rv"
    and "secret ke = Some s" and "X s = Some sx"
    and "peerSecret ke = Some ps" and "X ps = Some psx" and "Y ps = Some psy"
    and "peerPub ke = Some pp" and "X pp = Some ppx" and "Y pp = Some ppy"
    and "v ke = Some vv"
    and "w2 ke = Some (2 ^ w)" and "w2Minus1 ke = Some (2 ^ w - 1)"
    and "0 < Params_N P c"
  shows "mqv P ke =
           (Inr (), ke\<lparr>v := Some (vv\<lparr>X := Some (fst (Combine P c w sx rv d (ppx, ppy) (psx, psy))),
                                     Y := Some (snd (Combine P c w sx rv d (ppx, ppy) (psx, psy)))\<rparr>)\<rparr>)"
proof -
  have a1: "avf ke (Some sx) = Inr (AssociativeValue w sx)"
    and a2: "avf ke (Some psx) = Inr (AssociativeValue w psx)"
    using assms(14,15) by (rule avf_eq)+
  have m: "Mod (AssociativeValue w sx * rv + d) (Params_N P c) =
             Inr ((AssociativeValue w sx * rv + d) mod Params_N P c)"
    using assms(16) by (simp add: Mod_def)
  show ?thesis
    by (simp add: mqv_def assms(1-13) a1 a2 m Combine_def Let_def scalarMultiply_def
        pointAdd_def case_prod_beta)
qed

text \<open>
  Claim C2. In a session whose local key, ephemeral scalar, own and peer ephemeral
  points and peer public key are set, whose constants are \<open>2 ^ w\<close> and \<open>2 ^ w - 1\<close>
  and whose curve has a positive order, \<open>mqv\<close> returns without error and stores in
  \<open>v\<close> exactly the point that the five steps of the specification's \<open>Combine\<close>
  compute from these fields: a function of the session state alone. Both scalars
  handed to the curve are non-negative, so their big-endian bytes read back as
  the scalars themselves.
\<close>

theorem mqv_is_Combine:
  assumes "privateKey ke = Some pk" and "Curve pk = Some c" and "D pk = Some d"
    and "r ke = Some rv"
    and "secret ke = Some s" and "X s = Some sx"
    and "peerSecret ke = Some ps" and "X ps = Some psx" and "Y ps = Some psy"
    and "peerPub ke = Some pp" and "X pp = Some ppx" and "Y pp = Some ppy"
    and "v ke = Some vv"
    and "w2 ke = Some (2 ^ w)" and "w2Minus1 ke = Some (2 ^ w - 1)"
    and "0 < Params_N P c"
  shows "mqv P ke =
           (Inr (), ke\<lparr>v := Some (vv\<lparr>X := Some (fst (Combine P c w sx rv d (ppx, ppy) (psx, psy))),
                                     Y := Some (snd (Combine P c w sx rv d (ppx, ppy) (psx, psy)))\<rparr>)\<rparr>) \<and>
         from_bytes (Bytes (AssociativeValue w psx)) = AssociativeValue w psx \<and>
         from_bytes (Bytes ((AssociativeValue w sx * rv + d) mod Params_N P c)) =
           (AssociativeValue w sx * rv + d) mod Params_N P c"
proof -
  have "from_bytes (Bytes (AssociativeValue w psx)) = AssociativeValue w psx"
    using AssociativeValue_pos [of w psx] by (simp add: from_bytes_Bytes)
  moreover have "from_bytes (Bytes ((AssociativeValue w sx * rv + d) mod Params_N P c)) =
           (AssociativeValue w sx * rv + d) mod Params_N P c"
    using assms(16) by (simp add: from_bytes_Bytes)
  ultimately show ?thesis
    using mqv_Combine [OF assms] by simp
qed

lemma demo_Combine: "Combine demo 0 1 4 4 5 (3, 6) (2, 4) = (3, 6)"
  by code_simp

theorem mqv_is_Combine_witness:
  "mqv demo (keB1\<lparr>v := Some emptyPoint\<rparr>) = (Inr (), keB1) \<and>
   Combine demo 0 1 4 4 5 (3, 6) (2, 4) = (3, 6)"
proof -
  let ?ke = "keB1\<lparr>v := Some emptyPoint\<rparr>"
  let ?p = "\<lambda>x y. \<lparr>Curve = Some 0, X = Some x, Y = Some y\<rparr>"
  have h: "privateKey ?ke = Some privB" "Curve privB = Some 0" "D privB = Some 5"
    "r ?ke = Some 4" "secret ?ke = Some (?p 4 8)" "X (?p 4 8) = Some 4"
    "peerSecret ?ke = Some (?p 2 4)" "X (?p 2 4) = Some 2" "Y (?p 2 4) = Some 4"
    "peerPub ?ke = Some pubA" "X pubA = Some 3" "Y pubA = Some 6"
    "v ?ke = Some emptyPoint" "w2 ?ke = Some (2 ^ 1)" "w2Minus1 ?ke = Some (2 ^ 1 - 1)"
    "0 < Params_N demo 0"
    by (simp_all add: keB1_def keB0_def privB_def pubA_def demo_def)
  have e: "?ke\<lparr>v := Some (emptyPoint\<lparr>X := Some 3, Y := Some 6\<rparr>)\<rparr> = keB1"
    by (simp add: keB1_def emptyPoint_def)
  from mqv_is_Combine [of ?ke, OF h] demo_Combine e show ?thesis
    by simp
qed

section \<open>Claim C3\<close>


lemma from_bytes_zeros: "from_bytes (replicate k 0 @ bs) = from_bytes bs"
  by (induction k) (simp_all add: from_bytes_def)

lemma fixedWidth_props:
  assumes "0 \<le> x" "x < 256 ^ n"
  shows "length (fixedWidth n x) = n" and "from_bytes (fixedWidth n x) = x"
  using length_Bytes [OF assms] assms(1)
  by (simp_all add: fixedWidth_def from_bytes_zeros from_bytes_Bytes)

lemma bigIntToBytes_fixedWidth:
  assumes "Curve pk = Some c" "0 \<le> x" "x < 256 ^ fieldByteLen P c"
  shows "bigIntToBytes P (Some pk) (Some x) = Inr (fixedWidth (fieldByteLen P c) x)"
  using length_Bytes [OF assms(2,3)] assms(1,2)
  by (simp add: bigIntToBytes_def fixedWidth_def)

lemma sign_ComputeTag:
  assumes "privateKey ke = Some pk" and "Curve pk = Some c"
    and "v ke = Some vv" and "X vv = Some vx" and "Y vv = Some vy"
    and "secret ke = Some s" and "X s = Some sx" and "Y s = Some sy"
    and "peerSecret ke = Some ps" and "X ps = Some psx" and "Y ps = Some psy"
    and "\<forall>x \<in> {vx, vy, sx, sy, psx, psy}. 0 \<le> x \<and> x < 256 ^ fieldByteLen P c"
  shows "sign P ke isResponder prefix =
           Inr (ComputeTag P (fieldByteLen P c) isResponder prefix (vx, vy)
                  (elems (z ke)) (elems (peerZ ke)) (sx, sy) (psx, psy))"
proof -
  have b: "bigIntToBytes P (Some pk) (Some x) = Inr (fixedWidth (fieldByteLen P c) x)"
    if "x \<in> {vx, vy, sx, sy, psx, psy}" for x
    using assms(12) that by (intro bigIntToBytes_fixedWidth [OF assms(2)]) blast+
  show ?thesis
    by (simp add: sign_def assms(1-11) b ComputeTag_def Let_def sm3_New_def hash_Write_def
        hash_Sum_def hash_Reset_def)
qed

text \<open>
  Claim C3. In a session whose local key, combination point and two ephemeral points are
  set, with coordinates that are field elements of the curve's byte width, \<open>sign\<close>
  returns the two-stage digest \<open>ComputeTag\<close>: an inner hash over \<open>v.x\<close> followed, in
  responder role, by \<open>peerZ\<close>, \<open>z\<close>, the peer's ephemeral \<open>x\<close> and \<open>y\<close> and the own
  ephemeral \<open>x\<close> and \<open>y\<close> (in initiator role by \<open>z\<close>, \<open>peerZ\<close>, own, peer), then an
  outer hash over the prefix byte, \<open>v.y\<close> and the inner digest. Every coordinate is
  written with exactly the field-element byte length, zero bytes first, and reads back
  as the coordinate.
\<close>

theorem sign_is_ComputeTag:
  assumes "privateKey ke = Some pk" and "Curve pk = Some c"
    and "v ke = Some vv" and "X vv = Some vx" and "Y vv = Some vy"
    and "secret ke = Some s" and "X s = Some sx" and "Y s = Some sy"
    and "peerSecret ke = Some ps" and "X ps = Some psx" and "Y ps = Some psy"
    and "\<forall>x \<in> {vx, vy, sx, sy, psx, psy}. 0 \<le> x \<and> x < 256 ^ fieldByteLen P c"
  shows "sign P ke isResponder prefix =
           Inr (ComputeTag P (fieldByteLen P c) isResponder prefix (vx, vy)
                  (elems (z ke)) (elems (peerZ ke)) (sx, sy) (psx, psy)) \<and>
         (\<forall>x \<in> {vx, vy, sx, sy, psx, psy}.
            bigIntToBytes P (privateKey ke) (Some x) = Inr (fixedWidth (fieldByteLen P c) x) \<and>
            length (fixedWidth (fieldByteLen P c) x) = fieldByteLen P c \<and>
            from_bytes (fixedWidth (fieldByteLen P c) x) = x)"
proof -
  have b: "bigIntToBytes P (Some pk) (Some x) = Inr (fixedWidth (fieldByteLen P c) x)"
    if "x \<in> {vx, vy, sx, sy, psx, psy}" for x
    using assms(12) that by (intro bigIntToBytes_fixedWidth [OF assms(2)]) blast+
  have f: "length (fixedWidth (fieldByteLen P c) x) = fieldByteLen P c \<and>
           from_bytes (fixedWidth (fieldByteLen P c) x) = x"
    if "x \<in> {vx, vy, sx, sy, psx, psy}" for x
    using assms(12) that fixedWidth_props [of x "fieldByteLen P c"] by blast
  from sign_ComputeTag [OF assms] b f show ?thesis by (simp add: assms(1))
qed

lemma demo_tag: 
  "ComputeTag demo 1 True 2 (3, 6) digestB digestA (4, 8) (2, 4) =
     [2, 6, 3, 3, 6] @ elems defaultUID @ replicate 11 0"
  by code_simp

theorem sign_is_ComputeTag_witness:
  "sign demo keB1 True 2 = Inr ([2, 6, 3, 3, 6] @ elems defaultUID @ replicate 11 0) \<and>
   bigIntToBytes demo (privateKey keB1) (Some 3) = Inr [3] \<and> fieldByteLen demo 0 = 1"
proof -
  let ?p = "\<lambda>x y. \<lparr>Curve = Some 0, X = Some x, Y = Some y\<rparr>"
  have h: "privateKey keB1 = Some privB" "Curve privB = Some 0"
    "v keB1 = Some (?p 3 6)" "X (?p 3 6) = Some 3" "Y (?p 3 6) = Some 6"
    "secret keB1 = Some (?p 4 8)" "X (?p 4 8) = Some 4" "Y (?p 4 8) = Some 8"
    "peerSecret keB1 = Some (?p 2 4)" "X (?p 2 4) = Some 2" "Y (?p 2 4) = Some 4"
    by (simp_all add: keB1_def keB0_def privB_def)
  have n: "fieldByteLen demo 0 = 1" by (simp add: demo_def)
  have g: "\<forall>x \<in> {3, 6, 4, 8, 2, 4::int}. 0 \<le> x \<and> x < 256 ^ fieldByteLen demo 0"
    by (simp add: n)
  have zs: "elems (z keB1) = digestB" "elems (peerZ keB1) = digestA"
    by (simp_all add: keB1_def keB0_def elems_def)
  have fw: "fixedWidth 1 3 = [3]" by code_simp
  from sign_is_ComputeTag [of keB1, OF h g, of True 2] demo_tag zs n fw show ?thesis
    by simp
qed

section \<open>Claim C4\<close>


lemma Sign_0: "Sign x = 0 \<longleftrightarrow> x = 0"
  by (simp add: Sign_def)

lemma respondKeyExchange_Inr:
  assumes "respondKeyExchange P ke rA rv = (Inr out, k)"
  shows "\<exists>vv vx vy. v k = Some vv \<and> X vv = Some vx \<and> Y vv = Some vy \<and> \<not> (vx = 0 \<and> vy = 0)"
  using assms unfolding respondKeyExchange_def Let_def Sign_0
  by (simp split: option.splits sum.splits prod.splits if_splits)

lemma RepondKeyExchange_Inr:
  assumes "RepondKeyExchange P ke rand rA = (Inr out, k)"
  shows "\<exists>vv vx vy. v k = Some vv \<and> X vv = Some vx \<and> Y vv = Some vy \<and> \<not> (vx = 0 \<and> vy = 0)"
  using assms respondKeyExchange_Inr [of P ke rA _ out k]
  by (auto simp: RepondKeyExchange_def split: option.splits sum.splits)

lemma ConfirmResponder_Inr:
  assumes "ConfirmResponder P ke rB sB = (Inr out, k)"
  shows "\<exists>vv vx vy. v k = Some vv \<and> X vv = Some vx \<and> Y vv = Some vy \<and> \<not> (vx = 0 \<and> vy = 0)"
  using assms unfolding ConfirmResponder_def Let_def Sign_0
  by (simp split: option.splits sum.splits prod.splits if_splits)

lemma respondKeyExchange_infinity:
  assumes "peerPub ke \<noteq> None" "privateKey ke = Some pk" "Curve pk = Some c"
    "rA = Some ra" "X ra = Some x" "Y ra = Some y" "IsOnCurve P c x y"
    "secret ke = Some s" "ScalarBaseMult P c (Bytes rv) = (sx, sy)"
    "mqv P (ke\<lparr>peerSecret := rA, secret := Some (s\<lparr>X := Some sx, Y := Some sy\<rparr>),
              r := Some rv\<rparr>) = (Inr (), ke')"
    "v ke' = Some vv" "X vv = Some 0" "Y vv = Some 0"
  shows "respondKeyExchange P ke rA rv = (Inl errVInfinity, ke')"
  using assms by (auto simp: respondKeyExchange_def Sign_0)

lemma ConfirmResponder_infinity:
  assumes "peerPub ke \<noteq> None" "privateKey ke = Some pk" "Curve pk = Some c"
    "rB = Some rb" "X rb = Some x" "Y rb = Some y" "IsOnCurve P c x y"
    "mqv P (ke\<lparr>peerSecret := rB\<rparr>) = (Inr (), ke')"
    "v ke' = Some vv" "X vv = Some 0" "Y vv = Some 0"
  shows "ConfirmResponder P ke rB sB = (Inl errUInfinity, ke')"
  using assms by (auto simp: ConfirmResponder_def Sign_0)


text \<open>
  Claim C4. When \<open>mqv\<close> has run and the combination point it stored is (0, 0),
  \<open>respondKeyExchange\<close> (and \<open>RepondKeyExchange\<close>, once its scalar is drawn) returns
  the error "key exchange failed, V is infinity point" and \<open>ConfirmResponder\<close>
  returns "key exchange failed, U is infinity point": an error result carries no
  ephemeral point, tag or key. Conversely, whenever either operation returns a result,
  the combination point of the session it leaves is set and is not (0, 0).
\<close>

theorem infinity_aborts:
  "(peerPub ke \<noteq> None \<and> privateKey ke = Some pk \<and> Curve pk = Some c \<and>
    rA = Some ra \<and> X ra = Some x \<and> Y ra = Some y \<and> IsOnCurve P c x y \<and>
    secret ke = Some s \<and> ScalarBaseMult P c (Bytes rv) = (sx, sy) \<and>
    mqv P (ke\<lparr>peerSecret := rA, secret := Some (s\<lparr>X := Some sx, Y := Some sy\<rparr>),
              r := Some rv\<rparr>) = (Inr (), ke') \<and>
    v ke' = Some vv \<and> X vv = Some 0 \<and> Y vv = Some 0
    \<longrightarrow> respondKeyExchange P ke rA rv = (Inl errVInfinity, ke') \<and>
        (randFieldElement P c rand = Inr rv \<longrightarrow>
           RepondKeyExchange P ke rand rA = (Inl errVInfinity, ke'))) \<and>
   (peerPub ke \<noteq> None \<and> privateKey ke = Some pk \<and> Curve pk = Some c \<and>
    rB = Some rb \<and> X rb = Some x \<and> Y rb = Some y \<and> IsOnCurve P c x y \<and>
    mqv P (ke\<lparr>peerSecret := rB\<rparr>) = (Inr (), ke'') \<and>
    v ke'' = Some vv \<and> X vv = Some 0 \<and> Y vv = Some 0
    \<longrightarrow> ConfirmResponder P ke rB sB = (Inl errUInfinity, ke'')) \<and>
   (\<forall>out k. RepondKeyExchange P ke rand rA = (Inr out, k) \<longrightarrow>
      (\<exists>vv vx vy. v k = Some vv \<and> X vv = Some vx \<and> Y vv = Some vy \<and> \<not> (vx = 0 \<and> vy = 0))) \<and>
   (\<forall>out k. ConfirmResponder P ke rB sB = (Inr out, k) \<longrightarrow>
      (\<exists>vv vx vy. v k = Some vv \<and> X vv = Some vx \<and> Y vv = Some vy \<and> \<not> (vx = 0 \<and> vy = 0)))"
proof (intro conjI impI allI)
  assume h: "peerPub ke \<noteq> None \<and> privateKey ke = Some pk \<and> Curve pk = Some c \<and>
    rA = Some ra \<and> X ra = Some x \<and> Y ra = Some y \<and> IsOnCurve P c x y \<and>
    secret ke = Some s \<and> ScalarBaseMult P c (Bytes rv) = (sx, sy) \<and>
    mqv P (ke\<lparr>peerSecret := rA, secret := Some (s\<lparr>X := Some sx, Y := Some sy\<rparr>),
              r := Some rv\<rparr>) = (Inr (), ke') \<and>
    v ke' = Some vv \<and> X vv = Some 0 \<and> Y vv = Some 0"
  then show r: "respondKeyExchange P ke rA rv = (Inl errVInfinity, ke')"
    by (intro respondKeyExchange_infinity [where vv = vv]) blast+
  assume "randFieldElement P c rand = Inr rv"
  with h r show "RepondKeyExchange P ke rand rA = (Inl errVInfinity, ke')"
    by (simp add: RepondKeyExchange_def)
next
  assume "peerPub ke \<noteq> None \<and> privateKey ke = Some pk \<and> Curve pk = Some c \<and>
    rB = Some rb \<and> X rb = Some x \<and> Y rb = Some y \<and> IsOnCurve P c x y \<and>
    mqv P (ke\<lparr>peerSecret := rB\<rparr>) = (Inr (), ke'') \<and>
    v ke'' = Some vv \<and> X vv = Some 0 \<and> Y vv = Some 0"
  then show "ConfirmResponder P ke rB sB = (Inl errUInfinity, ke'')"
    by (intro ConfirmResponder_infinity [where vv = vv]) blast+
next
  fix out k
  assume "RepondKeyExchange P ke rand rA = (Inr out, k)"
  then show "\<exists>vv vx vy. v k = Some vv \<and> X vv = Some vx \<and> Y vv = Some vy \<and> \<not> (vx = 0 \<and> vy = 0)"
    by (rule RepondKeyExchange_Inr)
next
  fix out k
  assume "ConfirmResponder P ke rB sB = (Inr out, k)"
  then show "\<exists>vv vx vy. v k = Some vv \<and> X vv = Some vx \<and> Y vv = Some vy \<and> \<not> (vx = 0 \<and> vy = 0)"
    by (rule ConfirmResponder_Inr)
qed


lemma demo_mqv_V:
  "mqv demo (keA0\<lparr>peerSecret := Some \<lparr>Curve = Some 0, X = Some 2, Y = Some 4\<rparr>,
                  secret := Some (emptyPoint\<lparr>X := Some 4, Y := Some 8\<rparr>), r := Some 4\<rparr>) =
     (Inr (), keV)"
  by code_simp

lemma demo_mqv_U:
  "mqv demo (keI\<lparr>peerSecret := Some \<lparr>Curve = Some 0, X = Some 2, Y = Some 4\<rparr>\<rparr>) = (Inr (), keU)"
  by code_simp

theorem infinity_aborts_witness:
  "respondKeyExchange demo keA0 (Some \<lparr>Curve = Some 0, X = Some 2, Y = Some 4\<rparr>) 4 =
     (Inl errVInfinity, keV) \<and>
   randFieldElement demo 0 [3] = Inr 4 \<and>
   RepondKeyExchange demo keA0 [3] (Some \<lparr>Curve = Some 0, X = Some 2, Y = Some 4\<rparr>) =
     (Inl errVInfinity, keV) \<and>
   ConfirmResponder demo keI (Some \<lparr>Curve = Some 0, X = Some 2, Y = Some 4\<rparr>) None =
     (Inl errUInfinity, keU) \<and>
   fst (RepondKeyExchange demo keB0 [3] (Some \<lparr>Curve = Some 0, X = Some 2, Y = Some 4\<rparr>)) =
     Inr (Some \<lparr>Curve = Some 0, X = Some 4, Y = Some 8\<rparr>,
          Some ([2, 6, 3, 3, 6] @ elems defaultUID @ replicate 11 0)) \<and>
   (\<exists>vv vx vy. v keB1 = Some vv \<and> X vv = Some vx \<and> Y vv = Some vy \<and> \<not> (vx = 0 \<and> vy = 0))"
proof -
  let ?ra = "\<lparr>Curve = Some 0, X = Some 2, Y = Some 4\<rparr>"
  let ?z = "\<lparr>Curve = Some 0, X = Some 0, Y = Some 0\<rparr>"
  have rd: "randFieldElement demo 0 [3] = Inr 4" by (simp add: demo_def)
  have h1: "peerPub keA0 \<noteq> None \<and> privateKey keA0 = Some privA \<and> Curve privA = Some 0 \<and>
    Some ?ra = Some ?ra \<and> X ?ra = Some 2 \<and> Y ?ra = Some 4 \<and> IsOnCurve demo 0 2 4 \<and>
    secret keA0 = Some emptyPoint \<and> ScalarBaseMult demo 0 (Bytes 4) = (4, 8) \<and>
    mqv demo (keA0\<lparr>peerSecret := Some ?ra, secret := Some (emptyPoint\<lparr>X := Some 4, Y := Some 8\<rparr>),
              r := Some 4\<rparr>) = (Inr (), keV) \<and>
    v keV = Some ?z \<and> X ?z = Some 0 \<and> Y ?z = Some 0"
    using demo_mqv_V
    by (simp add: keA0_def privA_def keV_def demo_def from_bytes_Bytes)
  have h2: "peerPub keI \<noteq> None \<and> privateKey keI = Some privA \<and> Curve privA = Some 0 \<and>
    Some ?ra = Some ?ra \<and> X ?ra = Some 2 \<and> Y ?ra = Some 4 \<and> IsOnCurve demo 0 2 4 \<and>
    mqv demo (keI\<lparr>peerSecret := Some ?ra\<rparr>) = (Inr (), keU) \<and>
    v keU = Some ?z \<and> X ?z = Some 0 \<and> Y ?z = Some 0"
    using demo_mqv_U
    by (simp add: keA0_def privA_def keI_def keU_def demo_def)
  note t = infinity_aborts [of keA0 privA 0 "Some ?ra" ?ra 2 4 demo emptyPoint 4 4 8 keV ?z "[3]"]
  note u = infinity_aborts [of keI privA 0 _ _ 2 4 demo _ _ _ _ _ ?z _ "Some ?ra" ?ra keU None]
  note w = infinity_aborts [of keB0 _ _ "Some ?ra" _ _ _ demo _ _ _ _ _ _ "[3]"]
  from t h1 rd have a: "respondKeyExchange demo keA0 (Some ?ra) 4 = (Inl errVInfinity, keV)"
    and b: "RepondKeyExchange demo keA0 [3] (Some ?ra) = (Inl errVInfinity, keV)"
    by blast+
  from u h2 have c: "ConfirmResponder demo keI (Some ?ra) None = (Inl errUInfinity, keU)"
    by blast
  from w demo_Respond_B
  have d: "\<exists>vv vx vy. v keB1 = Some vv \<and> X vv = Some vx \<and> Y vv = Some vy \<and> \<not> (vx = 0 \<and> vy = 0)"
    by blast
  from a b c d rd demo_Respond_B show ?thesis by simp
qed

section \<open>Claim C5\<close>

lemma demo_New_N: "NewKeyExchange demo (Some privA) None None None 16 True = Inr keN"
  by code_simp

text \<open>
  Claim C5. Without a bound peer public key, \<open>respondKeyExchange\<close> and
  \<open>ConfirmResponder\<close> return "no peer public key given"; with a bound peer key and a
  received ephemeral point that is not on the curve they return "invalid initiator's
  ephemeral public key" and "invalid responder's ephemeral public key". In all four
  cases the session comes back unchanged: the point has not been stored and \<open>mqv\<close> has
  not run. \<open>RepondKeyExchange\<close> draws its scalar first and then behaves as
  \<open>respondKeyExchange\<close>.
\<close>

theorem peer_checks_precede_mqv:
  "(peerPub ke = None \<longrightarrow>
      respondKeyExchange P ke rA rv = (Inl errNoPeerPub, ke) \<and>
      ConfirmResponder P ke rB sB = (Inl errNoPeerPub, ke) \<and>
      (privateKey ke = Some pk \<and> Curve pk = Some c \<and> randFieldElement P c rand = Inr rv \<longrightarrow>
         RepondKeyExchange P ke rand rA = (Inl errNoPeerPub, ke))) \<and>
   (peerPub ke \<noteq> None \<and> privateKey ke = Some pk \<and> Curve pk = Some c \<and>
    pt = Some q \<and> X q = Some x \<and> Y q = Some y \<and> \<not> IsOnCurve P c x y \<longrightarrow>
      respondKeyExchange P ke pt rv = (Inl errInitiatorEphemeral, ke) \<and>
      ConfirmResponder P ke pt sB = (Inl errResponderEphemeral, ke) \<and>
      (randFieldElement P c rand = Inr rv \<longrightarrow>
         RepondKeyExchange P ke rand pt = (Inl errInitiatorEphemeral, ke)))"
  by (auto simp: respondKeyExchange_def ConfirmResponder_def RepondKeyExchange_def)

theorem peer_checks_precede_mqv_witness:
  "peerPub keN = None \<and> randFieldElement demo 0 [3] = Inr 4 \<and>
   RepondKeyExchange demo keN [3] (Some \<lparr>Curve = Some 0, X = Some 2, Y = Some 4\<rparr>) =
     (Inl errNoPeerPub, keN) \<and>
   ConfirmResponder demo keN (Some \<lparr>Curve = Some 0, X = Some 2, Y = Some 4\<rparr>) None =
     (Inl errNoPeerPub, keN) \<and>
   peerPub keB0 = Some pubA \<and> \<not> IsOnCurve demo 0 0 0 \<and>
   RepondKeyExchange demo keB0 [3] (Some \<lparr>Curve = Some 0, X = Some 0, Y = Some 0\<rparr>) =
     (Inl errInitiatorEphemeral, keB0) \<and>
   ConfirmResponder demo keB0 (Some \<lparr>Curve = Some 0, X = Some 0, Y = Some 0\<rparr>) None =
     (Inl errResponderEphemeral, keB0)"
proof -
  let ?ra = "\<lparr>Curve = Some 0, X = Some 2, Y = Some 4\<rparr>"
  let ?o = "\<lparr>Curve = Some 0, X = Some 0, Y = Some 0\<rparr>"
  have rd: "randFieldElement demo 0 [3] = Inr 4" by (simp add: demo_def)
  have n: "peerPub keN = None" "privateKey keN = Some privA" "Curve privA = Some 0"
    by (simp_all add: keN_def keA0_def privA_def)
  have b: "peerPub keB0 = Some pubA" "privateKey keB0 = Some privB" "Curve privB = Some 0"
    "X ?o = Some 0" "Y ?o = Some 0" "\<not> IsOnCurve demo 0 0 0"
    by (simp_all add: keB0_def privB_def demo_def)
  from peer_checks_precede_mqv [of keN demo "Some ?ra" 4 "Some ?ra" None privA 0 "[3]"] n rd
  have 1: "RepondKeyExchange demo keN [3] (Some ?ra) = (Inl errNoPeerPub, keN)"
    and 2: "ConfirmResponder demo keN (Some ?ra) None = (Inl errNoPeerPub, keN)"
    by blast+
  from peer_checks_precede_mqv [of keB0 demo _ 4 _ None privB 0 "[3]" "Some ?o" ?o 0 0] b rd
  have 3: "RepondKeyExchange demo keB0 [3] (Some ?o) = (Inl errInitiatorEphemeral, keB0)"
    and 4: "ConfirmResponder demo keB0 (Some ?o) None = (Inl errResponderEphemeral, keB0)"
    by auto
  from 1 2 3 4 n b rd show ?thesis by simp
qed

section \<open>Claim C6\<close>

lemma demo_mqv_A: 
  "mqv demo (keA1\<lparr>peerSecret := Some \<lparr>Curve = Some 0, X = Some 4, Y = Some 8\<rparr>\<rparr>) = (Inr (), keA2)"
  by code_simp

lemma demo_sign_A2:
  "sign demo keA2 False 2 = Inr ([2, 6, 3, 3, 6] @ elems defaultUID @ replicate 11 0)"
  "sign demo keA2 False 3 = Inr ([3, 6, 3, 3, 6] @ elems defaultUID @ replicate 11 0)"
  by code_simp+

lemma demo_sign_B1:
  "sign demo keB1 True 3 = Inr ([3, 6, 3, 3, 6] @ elems defaultUID @ replicate 11 0)"
  "sign demo keB1 True 2 = Inr ([2, 6, 3, 3, 6] @ elems defaultUID @ replicate 11 0)"
  by code_simp+

lemma demo_Confirm_A:
  "ConfirmResponder demo keA1 (Some \<lparr>Curve = Some 0, X = Some 4, Y = Some 8\<rparr>)
     (Some ([2, 6, 3, 3, 6] @ elems defaultUID @ replicate 11 0)) =
   (Inr ([3, 6, 3, 6] @ take 12 (elems defaultUID),
         Some ([3, 6, 3, 3, 6] @ elems defaultUID @ replicate 11 0)), keA2)"
  by code_simp

lemma demo_Confirm_B:
  "ConfirmInitiator demo keB1 (Some ([3, 6, 3, 3, 6] @ elems defaultUID @ replicate 11 0)) =
     Inr ([3, 6, 3, 6] @ take 12 (elems defaultUID))"
  by code_simp

lemma bigIntToBytes_curve:
  "Curve p1 = Curve p2 \<Longrightarrow> bigIntToBytes P (Some p1) x = bigIntToBytes P (Some p2) x"
  by (simp add: bigIntToBytes_def)

lemma case_six_sums:
  "(case (a, b, c, d, e, f) of
      (Inr va, Inr vb, Inr vc, Inr vd, Inr ve, Inr vf) \<Rightarrow> G va vb vc vd ve vf
    | _ \<Rightarrow> Z) =
   (if isl a \<or> isl b \<or> isl c \<or> isl d \<or> isl e \<or> isl f then Z
    else G (projr a) (projr b) (projr c) (projr d) (projr e) (projr f))"
  by (cases a; cases b; cases c; cases d; cases e; cases f; simp)

lemma sign_mirrored:
  assumes "mirrored kI kR"
  shows "sign P kR True p = sign P kI False p"
proof -
  from assms obtain pkI pkR where k: "privateKey kI = Some pkI" "privateKey kR = Some pkR"
    and c: "Curve pkI = Curve pkR"
    by (auto simp: mirrored_def split: option.splits)
  from assms have f: "v kR = v kI" "secret kR = peerSecret kI" "peerSecret kR = secret kI"
    "elems (z kR) = elems (peerZ kI)" "elems (peerZ kR) = elems (z kI)"
    by (simp_all add: mirrored_def)
  have b: "bigIntToBytes P (Some pkR) x = bigIntToBytes P (Some pkI) x" for x
    by (rule bigIntToBytes_curve) (simp add: c)
  show ?thesis
    unfolding sign_def k f b case_six_sums
    by (simp add: disj_ac split: option.splits)
qed

lemma ConfirmResponder_accepts:
  assumes "ConfirmResponder P ke rB sB = (Inr out, k)" "0 < len sB"
  shows "sign P k False 0x02 = Inr (elems sB)"
  using assms unfolding ConfirmResponder_def Let_def
  by (simp add: ConstantTimeCompare_iff split: option.splits sum.splits prod.splits if_splits)

lemma ConfirmInitiator_accepts:
  assumes "ConfirmInitiator P ke (Some tg) = Inr key"
  shows "sign P ke True 0x03 = Inr tg"
  using assms
  by (simp add: ConfirmInitiator_def ConstantTimeCompare_iff elems_def
      split: sum.splits if_splits)

lemma ConfirmResponder_rejects:
  assumes "peerPub ke \<noteq> None" "privateKey ke = Some pk" "Curve pk = Some c"
    and "rB = Some rb" "X rb = Some x" "Y rb = Some y" "IsOnCurve P c x y"
    and "mqv P (ke\<lparr>peerSecret := rB\<rparr>) = (Inr (), ke')"
    and "v ke' = Some vv" "X vv = Some vx" "Y vv = Some vy" "\<not> (vx = 0 \<and> vy = 0)"
    and "sign P ke' False 0x02 = Inr t" "0 < len sB" "elems sB \<noteq> t"
  shows "ConfirmResponder P ke rB sB = (Inl errResponderSignature, ke')"
  using assms
  by (auto simp: ConfirmResponder_def Sign_0 ConstantTimeCompare_iff)

lemma ConfirmInitiator_rejects:
  assumes "sign P ke True 0x03 = Inr t" "tg \<noteq> t"
  shows "ConfirmInitiator P ke (Some tg) = Inl errInitiatorSignature"
  using assms
  by (simp add: ConfirmInitiator_def ConstantTimeCompare_iff elems_def)

text \<open>
  Claim C6. A tag is named by its author: the expected responder tag is the responder's
  \<open>sign True 0x02\<close>, the expected initiator tag the initiator's \<open>sign False 0x03\<close>. On
  the two sessions of one exchange these are the tags the verifier recomputes on its own
  fields: \<open>sign False 0x02\<close> on the initiator's session, \<open>sign True 0x03\<close> on the
  responder's. Once \<open>ConfirmResponder\<close> has passed its peer-key and on-curve checks and
  \<open>mqv\<close> has stored a point other than (0, 0), a non-empty responder tag that differs
  from the expected tag gives the error "invalid responder's signature" and no key;
  \<open>ConfirmInitiator\<close>, given a non-nil tag that differs from the expected tag, gives the
  error "invalid initiator's signature" and no key. In every session state, whatever
  the tag, a call that returns a key was given the expected tag: a differing tag is
  never accepted.
\<close>

theorem tag_mismatch_rejected:
  "(peerPub ke \<noteq> None \<and> privateKey ke = Some pk \<and> Curve pk = Some c \<and>
    rB = Some rb \<and> X rb = Some x \<and> Y rb = Some y \<and> IsOnCurve P c x y \<and>
    mqv P (ke\<lparr>peerSecret := rB\<rparr>) = (Inr (), ke') \<and>
    v ke' = Some vv \<and> X vv = Some vx \<and> Y vv = Some vy \<and> \<not> (vx = 0 \<and> vy = 0) \<and>
    (sign P ke' False 0x02 = Inr t \<or> mirrored ke' kR \<and> sign P kR True 0x02 = Inr t) \<and>
    0 < len sB \<and> elems sB \<noteq> t
    \<longrightarrow> ConfirmResponder P ke rB sB = (Inl errResponderSignature, ke')) \<and>
   ((sign P ke True 0x03 = Inr t \<or> mirrored kI ke \<and> sign P kI False 0x03 = Inr t) \<and>
    s1 = Some tg \<and> tg \<noteq> t
    \<longrightarrow> ConfirmInitiator P ke s1 = Inl errInitiatorSignature) \<and>
   (\<forall>res k. ConfirmResponder P ke rB sB = (res, k) \<and> 0 < len sB \<longrightarrow>
      (\<forall>out. res = Inr out \<longrightarrow> sign P k False 0x02 = Inr (elems sB)) \<and>
      (\<forall>t'. sign P k False 0x02 = Inr t' \<and> elems sB \<noteq> t' \<longrightarrow> (\<exists>e. res = Inl e))) \<and>
   (\<forall>key tg'. ConfirmInitiator P ke (Some tg') = Inr key \<longrightarrow>
      sign P ke True 0x03 = Inr tg') \<and>
   (\<forall>k1 k2 p. mirrored k1 k2 \<longrightarrow> sign P k2 True p = sign P k1 False p)"
proof (intro conjI impI allI)
  assume h: "peerPub ke \<noteq> None \<and> privateKey ke = Some pk \<and> Curve pk = Some c \<and>
    rB = Some rb \<and> X rb = Some x \<and> Y rb = Some y \<and> IsOnCurve P c x y \<and>
    mqv P (ke\<lparr>peerSecret := rB\<rparr>) = (Inr (), ke') \<and>
    v ke' = Some vv \<and> X vv = Some vx \<and> Y vv = Some vy \<and> \<not> (vx = 0 \<and> vy = 0) \<and>
    (sign P ke' False 0x02 = Inr t \<or> mirrored ke' kR \<and> sign P kR True 0x02 = Inr t) \<and>
    0 < len sB \<and> elems sB \<noteq> t"
  then have "sign P ke' False 0x02 = Inr t"
    using sign_mirrored [of ke' kR P "0x02"] by auto
  with h show "ConfirmResponder P ke rB sB = (Inl errResponderSignature, ke')"
    by (intro ConfirmResponder_rejects [where vv = vv and t = t]) blast+
next
  assume h: "(sign P ke True 0x03 = Inr t \<or> mirrored kI ke \<and> sign P kI False 0x03 = Inr t) \<and>
    s1 = Some tg \<and> tg \<noteq> t"
  then have "sign P ke True 0x03 = Inr t"
    using sign_mirrored [of kI ke P "0x03"] by auto
  with h show "ConfirmInitiator P ke s1 = Inl errInitiatorSignature"
    by (simp add: ConfirmInitiator_rejects)
next
  fix res k out
  assume "ConfirmResponder P ke rB sB = (res, k) \<and> 0 < len sB" and "res = Inr out"
  then show "sign P k False 0x02 = Inr (elems sB)"
    using ConfirmResponder_accepts [of P ke rB sB out k] by simp
next
  fix res k t'
  assume a: "ConfirmResponder P ke rB sB = (res, k) \<and> 0 < len sB"
    and b: "sign P k False 0x02 = Inr t' \<and> elems sB \<noteq> t'"
  show "\<exists>e. res = Inl e"
  proof (cases res)
    case (Inl e)
    then show ?thesis by blast
  next
    case (Inr out)
    with a have "sign P k False 0x02 = Inr (elems sB)"
      using ConfirmResponder_accepts [of P ke rB sB out k] by simp
    with b show ?thesis by simp
  qed
next
  fix key tg'
  assume "ConfirmInitiator P ke (Some tg') = Inr key"
  then show "sign P ke True 0x03 = Inr tg'"
    by (rule ConfirmInitiator_accepts)
next
  fix k1 k2 p
  assume "mirrored k1 k2"
  then show "sign P k2 True p = sign P k1 False p"
    by (rule sign_mirrored)
qed

theorem tag_mismatch_rejected_witness:
  "mirrored keA2 keB1 \<and>
   sign demo keB1 True 0x02 = Inr ([2, 6, 3, 3, 6] @ elems defaultUID @ replicate 11 0) \<and>
   sign demo keA2 False 0x02 = Inr ([2, 6, 3, 3, 6] @ elems defaultUID @ replicate 11 0) \<and>
   sign demo keA2 False 0x03 = Inr ([3, 6, 3, 3, 6] @ elems defaultUID @ replicate 11 0) \<and>
   sign demo keB1 True 0x03 = Inr ([3, 6, 3, 3, 6] @ elems defaultUID @ replicate 11 0) \<and>
   ConfirmResponder demo keA1 (Some \<lparr>Curve = Some 0, X = Some 4, Y = Some 8\<rparr>) (Some [1]) =
     (Inl errResponderSignature, keA2) \<and>
   ConfirmInitiator demo keB1 (Some [1]) = Inl errInitiatorSignature \<and>
   ConfirmResponder demo keA1 (Some \<lparr>Curve = Some 0, X = Some 4, Y = Some 8\<rparr>)
     (Some ([2, 6, 3, 3, 6] @ elems defaultUID @ replicate 11 0)) =
   (Inr ([3, 6, 3, 6] @ take 12 (elems defaultUID),
         Some ([3, 6, 3, 3, 6] @ elems defaultUID @ replicate 11 0)), keA2) \<and>
   ConfirmInitiator demo keB1 (Some ([3, 6, 3, 3, 6] @ elems defaultUID @ replicate 11 0)) =
     Inr ([3, 6, 3, 6] @ take 12 (elems defaultUID))"
proof -
  let ?rb = "\<lparr>Curve = Some 0, X = Some 4, Y = Some 8\<rparr>"
  let ?v = "\<lparr>Curve = Some 0, X = Some 3, Y = Some 6\<rparr>"
  let ?t2 = "[2, 6, 3, 3, 6] @ elems defaultUID @ replicate 11 (0::byte)"
  let ?t3 = "[3, 6, 3, 3, 6] @ elems defaultUID @ replicate 11 (0::byte)"
  have m: "mirrored keA2 keB1"
    by (simp add: mirrored_def keA2_def keA1_def keA0_def keB1_def keB0_def privA_def privB_def)
  have h: "peerPub keA1 \<noteq> None \<and> privateKey keA1 = Some privA \<and> Curve privA = Some 0 \<and>
    Some ?rb = Some ?rb \<and> X ?rb = Some 4 \<and> Y ?rb = Some 8 \<and> IsOnCurve demo 0 4 8 \<and>
    mqv demo (keA1\<lparr>peerSecret := Some ?rb\<rparr>) = (Inr (), keA2) \<and>
    v keA2 = Some ?v \<and> X ?v = Some 3 \<and> Y ?v = Some 6 \<and> \<not> ((3::int) = 0 \<and> (6::int) = 0) \<and>
    (sign demo keA2 False 0x02 = Inr ?t2 \<or> mirrored keA2 keB1 \<and> sign demo keB1 True 0x02 = Inr ?t2) \<and>
    0 < len (Some [1]) \<and> elems (Some [1]) \<noteq> ?t2"
    using demo_mqv_A demo_sign_B1(2) m
    by (simp add: keA2_def keA1_def keA0_def privA_def demo_def len_def elems_def)
  have g: "(sign demo keB1 True 0x03 = Inr ?t3 \<or> mirrored keA2 keB1 \<and> sign demo keA2 False 0x03 = Inr ?t3) \<and>
    Some [1] = Some [1] \<and> [1] \<noteq> ?t3"
    using demo_sign_A2(2) m by simp
  note th = tag_mismatch_rejected [where P = demo and ke = keA1 and pk = privA and c = 0
      and rB = "Some ?rb" and rb = ?rb and x = 4 and y = 8 and ke' = keA2 and vv = ?v
      and vx = 3 and vy = 6 and t = ?t2 and kR = keB1 and sB = "Some [1]"]
  note tb = tag_mismatch_rejected [where P = demo and ke = keB1 and kI = keA2 and t = ?t3
      and ?s1.0 = "Some [1]" and tg = "[1]"]
  note tc = tag_mismatch_rejected [where P = demo and ke = keA1 and rB = "Some ?rb"
      and sB = "Some ?t2"]
  have 1: "ConfirmResponder demo keA1 (Some ?rb) (Some [1]) = (Inl errResponderSignature, keA2)"
    by (rule th [THEN conjunct1, rule_format]) (rule h)
  have 2: "ConfirmInitiator demo keB1 (Some [1]) = Inl errInitiatorSignature"
    by (rule tb [THEN conjunct2, THEN conjunct1, rule_format]) (rule g)
  have 3: "sign demo keA2 False 0x02 = Inr ?t2"
    using tc [THEN conjunct2, THEN conjunct2, THEN conjunct1, rule_format,
        of _ keA2, THEN conjunct1, rule_format] demo_Confirm_A
    by (simp add: len_def elems_def)
  have 4: "sign demo keB1 True 0x03 = Inr ?t3"
    using tb [THEN conjunct2, THEN conjunct2, THEN conjunct2, THEN conjunct1, rule_format]
      demo_Confirm_B
    by simp
  have 5: "sign demo keB1 True 0x02 = sign demo keA2 False 0x02"
    and 6: "sign demo keB1 True 0x03 = sign demo keA2 False 0x03"
    using tb [THEN conjunct2, THEN conjunct2, THEN conjunct2, THEN conjunct2, rule_format, OF m]
    by simp_all
  from 1 2 3 4 5 6 m demo_Confirm_A demo_Confirm_B show ?thesis by simp
qed


section \<open>Claim C10\<close>

lemma sign_Inr_digest:
  assumes "sign P ke b p = Inr t"
  shows "\<exists>bs. t = sm3_Sum P bs"
  using assms
  by (auto simp: sign_def Let_def hash_Sum_def split: option.splits sum.splits)

lemma ConstantTimeCompare_length:
  "length xs \<noteq> length ys \<Longrightarrow> ConstantTimeCompare xs ys = 0"
  by (simp add: ConstantTimeCompare_def)

lemma ConfirmInitiator_empty:
  assumes "sign P ke True 0x03 = Inr t" "t \<noteq> []"
  shows "ConfirmInitiator P ke (Some []) = Inl errInitiatorSignature"
  using assms by (simp add: ConfirmInitiator_def elems_def ConstantTimeCompare_length)

lemma len_None: "len None = 0"
  by (simp add: len_def)

lemma ConfirmResponder_len0:
  assumes "len sB = 0"
  shows "ConfirmResponder P ke rB sB = ConfirmResponder P ke rB None"
proof -
  have e: "(0 < len sB) = False" "(0 < len None) = False"
    using assms by (simp_all add: len_None)
  show ?thesis
    unfolding ConfirmResponder_def e if_False by (rule refl)
qed

text \<open>
  Claim C10. \<open>ConfirmResponder\<close> treats a responder tag of length 0, nil or empty, as
  absent: the call is the call with the nil tag, and once \<open>mqv\<close> has stored a point other
  than (0, 0) it goes straight to the key derivation, whatever the expected tag is.
  \<open>ConfirmInitiator\<close> skips the check for the nil tag only. Given the empty non-nil tag
  it recomputes \<open>sign True 0x03\<close>; with a 32-byte digest the comparison of slices of
  different lengths is 0, so the call returns "invalid initiator's signature" whenever
  the tag can be computed, an error otherwise, and never a key.
\<close>

theorem zero_length_tags:
  "(len sB = 0 \<longrightarrow> ConfirmResponder P ke rB sB = ConfirmResponder P ke rB None) \<and>
   (len sB = 0 \<and> peerPub ke \<noteq> None \<and> privateKey ke = Some pk \<and> Curve pk = Some c \<and>
    rB = Some rb \<and> X rb = Some x \<and> Y rb = Some y \<and> IsOnCurve P c x y \<and>
    mqv P (ke\<lparr>peerSecret := rB\<rparr>) = (Inr (), ke') \<and>
    v ke' = Some vv \<and> X vv = Some vx \<and> Y vv = Some vy \<and> \<not> (vx = 0 \<and> vy = 0) \<and>
    generateSharedKey P ke' False = Inr key
    \<longrightarrow> ConfirmResponder P ke rB sB =
          (if \<not> genSignature ke' then Inr (key, None)
           else (case sign P ke' False 0x03 of Inl e \<Rightarrow> Inl e | Inr sg \<Rightarrow> Inr (key, Some sg)),
           ke')) \<and>
   ConfirmInitiator P ke None = generateSharedKey P ke True \<and>
   ((\<forall>bs. length (sm3_Sum P bs) = 32) \<longrightarrow>
      (\<forall>t. sign P ke True 0x03 = Inr t \<longrightarrow>
         length t = 32 \<and> ConstantTimeCompare t [] = 0 \<and>
         ConfirmInitiator P ke (Some []) = Inl errInitiatorSignature) \<and>
      (\<forall>e. sign P ke True 0x03 = Inl e \<longrightarrow> ConfirmInitiator P ke (Some []) = Inl e) \<and>
      (\<forall>k. ConfirmInitiator P ke (Some []) \<noteq> Inr k))"
proof (intro conjI impI allI)
  assume "len sB = 0"
  then show "ConfirmResponder P ke rB sB = ConfirmResponder P ke rB None"
    by (rule ConfirmResponder_len0)
next
  assume "len sB = 0 \<and> peerPub ke \<noteq> None \<and> privateKey ke = Some pk \<and> Curve pk = Some c \<and>
    rB = Some rb \<and> X rb = Some x \<and> Y rb = Some y \<and> IsOnCurve P c x y \<and>
    mqv P (ke\<lparr>peerSecret := rB\<rparr>) = (Inr (), ke') \<and>
    v ke' = Some vv \<and> X vv = Some vx \<and> Y vv = Some vy \<and> \<not> (vx = 0 \<and> vy = 0) \<and>
    generateSharedKey P ke' False = Inr key"
  then show "ConfirmResponder P ke rB sB =
          (if \<not> genSignature ke' then Inr (key, None)
           else (case sign P ke' False 0x03 of Inl e \<Rightarrow> Inl e | Inr sg \<Rightarrow> Inr (key, Some sg)),
           ke')"
    by (auto simp: ConfirmResponder_def Sign_0 split: sum.splits)
next
  show "ConfirmInitiator P ke None = generateSharedKey P ke True"
    by (simp add: ConfirmInitiator_def)
next
  fix t
  assume d: "\<forall>bs. length (sm3_Sum P bs) = 32" and s: "sign P ke True 0x03 = Inr t"
  from sign_Inr_digest [OF s] d show l: "length t = 32" by auto
  then show "ConstantTimeCompare t [] = 0"
    by (simp add: ConstantTimeCompare_length)
  from l have "t \<noteq> []" by auto
  with s show "ConfirmInitiator P ke (Some []) = Inl errInitiatorSignature"
    by (rule ConfirmInitiator_empty)
next
  fix e
  assume "sign P ke True 0x03 = Inl e"
  then show "ConfirmInitiator P ke (Some []) = Inl e"
    by (simp add: ConfirmInitiator_def)
next
  fix k
  assume d: "\<forall>bs. length (sm3_Sum P bs) = 32"
  show "ConfirmInitiator P ke (Some []) \<noteq> Inr k"
  proof (cases "sign P ke True 0x03")
    case (Inl e)
    then show ?thesis by (simp add: ConfirmInitiator_def)
  next
    case (Inr t)
    from sign_Inr_digest [OF Inr] d have "length t = 32" by auto
    then have "t \<noteq> []" by auto
    with Inr show ?thesis by (simp add: ConfirmInitiator_empty)
  qed
qed

theorem zero_length_tags_witness:
  "ConfirmResponder demo keA1 (Some \<lparr>Curve = Some 0, X = Some 4, Y = Some 8\<rparr>) (Some []) =
     (Inr ([3, 6, 3, 6] @ take 12 (elems defaultUID),
           Some ([3, 6, 3, 3, 6] @ elems defaultUID @ replicate 11 0)), keA2) \<and>
   ConfirmResponder demo keA1 (Some \<lparr>Curve = Some 0, X = Some 4, Y = Some 8\<rparr>) None =
     (Inr ([3, 6, 3, 6] @ take 12 (elems defaultUID),
           Some ([3, 6, 3, 3, 6] @ elems defaultUID @ replicate 11 0)), keA2) \<and>
   sign demo keB1 True 0x03 = Inr ([3, 6, 3, 3, 6] @ elems defaultUID @ replicate 11 0) \<and>
   ConfirmInitiator demo keB1 (Some []) = Inl errInitiatorSignature \<and>
   ConfirmInitiator demo keB1 None = Inr ([3, 6, 3, 6] @ take 12 (elems defaultUID))"
proof -
  let ?rb = "\<lparr>Curve = Some 0, X = Some 4, Y = Some 8\<rparr>"
  let ?v = "\<lparr>Curve = Some 0, X = Some 3, Y = Some 6\<rparr>"
  let ?key = "[3, 6, 3, 6] @ take 12 (elems defaultUID)"
  let ?t3 = "[3, 6, 3, 3, 6] @ elems defaultUID @ replicate 11 (0::byte)"
  have gk: "generateSharedKey demo keA2 False = Inr ?key"
    and gb: "generateSharedKey demo keB1 True = Inr ?key"
    by code_simp+
  have h: "len (Some []) = 0 \<and> peerPub keA1 \<noteq> None \<and> privateKey keA1 = Some privA \<and>
    Curve privA = Some 0 \<and>
    Some ?rb = Some ?rb \<and> X ?rb = Some 4 \<and> Y ?rb = Some 8 \<and> IsOnCurve demo 0 4 8 \<and>
    mqv demo (keA1\<lparr>peerSecret := Some ?rb\<rparr>) = (Inr (), keA2) \<and>
    v keA2 = Some ?v \<and> X ?v = Some 3 \<and> Y ?v = Some 6 \<and> \<not> ((3::int) = 0 \<and> (6::int) = 0) \<and>
    generateSharedKey demo keA2 False = Inr ?key"
    using demo_mqv_A gk
    by (simp add: keA2_def keA1_def keA0_def privA_def demo_def len_def)
  have g: "genSignature keA2" by (simp add: keA2_def keA1_def keA0_def)
  have d: "\<forall>bs. length (sm3_Sum demo bs) = 32" by (auto simp: demo_def)
  note th = zero_length_tags [where P = demo and ke = keA1 and rB = "Some ?rb" and sB = "Some []"
      and ke' = keA2 and key = ?key and vv = ?v and vx = 3 and vy = 6 and pk = privA and c = 0
      and rb = ?rb and x = 4 and y = 8]
  have 2: "ConfirmResponder demo keA1 (Some ?rb) (Some []) = ConfirmResponder demo keA1 (Some ?rb) None"
    by (rule th [THEN conjunct1, rule_format]) (simp add: len_def)
  have "ConfirmResponder demo keA1 (Some ?rb) (Some []) =
          (if \<not> genSignature keA2 then Inr (?key, None)
           else (case sign demo keA2 False 0x03 of Inl e \<Rightarrow> Inl e | Inr sg \<Rightarrow> Inr (?key, Some sg)),
           keA2)"
    by (rule th [THEN conjunct2, THEN conjunct1, rule_format]) (rule h)
  with g demo_sign_A2(2)
  have 1: "ConfirmResponder demo keA1 (Some ?rb) (Some []) = (Inr (?key, Some ?t3), keA2)"
    by simp
  note tb = zero_length_tags [where P = demo and ke = keB1]
  have 4: "ConfirmInitiator demo keB1 None = Inr ?key"
    using tb [THEN conjunct2, THEN conjunct2, THEN conjunct1] gb by simp
  have 3: "ConfirmInitiator demo keB1 (Some []) = Inl errInitiatorSignature"
    using tb [THEN conjunct2, THEN conjunct2, THEN conjunct2, THEN mp, OF d,
        THEN conjunct1, rule_format, OF demo_sign_B1(1)]
    by simp
  from 1 2 have 5: "ConfirmResponder demo keA1 (Some ?rb) None = (Inr (?key, Some ?t3), keA2)"
    by simp
  from 1 5 3 4 demo_sign_B1(1) show ?thesis by simp
qed

section \<open>Claim C7\<close>

lemma SetPeerParameters_unchanged:
  "SetPeerParameters P ke None uid = (Inr (), ke)"
  "peerPub ke \<noteq> None \<Longrightarrow> SetPeerParameters P ke (Some pp) uid = (Inl errPeerPubExists, ke)"
  "peerPub ke = None \<Longrightarrow> privateKey ke = Some pk \<Longrightarrow> Curve pp \<noteq> Curve pk \<Longrightarrow>
     SetPeerParameters P ke (Some pp) uid = (Inl errPeerPubUnsupported, ke)"
  by (auto simp: SetPeerParameters_def Let_def)

lemma SetPeerParameters_bound:
  assumes "peerPub ke = None" "privateKey ke = Some pk" "Curve pp = Curve pk"
    and "CalculateZA P pp (elems (if len uid = 0 then defaultUID else uid)) = Inr zb"
  shows "\<exists>ke'. SetPeerParameters P ke (Some pp) uid = (Inr (), ke') \<and>
           peerPub ke' = Some pp \<and> peerZ ke' = Some zb"
  using assms by (simp add: SetPeerParameters_def Let_def)

lemma SetPeerParameters_digest_failure:
  assumes "peerPub ke = None" "privateKey ke = Some pk" "Curve pp = Curve pk"
    and "CalculateZA P pp (elems (if len uid = 0 then defaultUID else uid)) = Inl (Error msg)"
  shows "SetPeerParameters P ke (Some pp) uid =
           (Inl (Error msg), ke\<lparr>peerPub := Some pp, peerZ := None\<rparr>)"
  using assms by (simp add: SetPeerParameters_def Let_def)

text \<open>
  Claim C7 does not hold on the path where the peer's identity digest cannot be
  computed. The session \<open>keN\<close> that \<open>NewKeyExchange\<close> builds without a peer has neither
  peer field. \<open>SetPeerParameters\<close> with the public key \<open>pubB\<close> and a UID of 8192
  bytes, which the identity digest of the instance refuses, returns that error and leaves
  \<open>peerPub\<close> set while \<open>peerZ\<close> is nil: the error return has changed the peer fields and
  they are no longer both absent or both present. A second call with an acceptable UID
  is then refused because \<open>peerPub\<close> already exists.
\<close>

theorem SetPeerParameters_partial_binding:
  "NewKeyExchange demo (Some privA) None None None 16 True = Inr keN \<and>
   peerPub keN = None \<and> peerZ keN = None \<and>
   SetPeerParameters demo keN (Some pubB) (Some (replicate 8192 0)) =
     (Inl (Error ''sm2: the uid is too long''), keN\<lparr>peerPub := Some pubB\<rparr>) \<and>
   peerPub (keN\<lparr>peerPub := Some pubB\<rparr>) = Some pubB \<and>
   peerZ (keN\<lparr>peerPub := Some pubB\<rparr>) = None \<and>
   SetPeerParameters demo (keN\<lparr>peerPub := Some pubB\<rparr>) (Some pubB) None =
     (Inl errPeerPubExists, keN\<lparr>peerPub := Some pubB\<rparr>)"
proof -
  have n: "peerPub keN = None" "peerZ keN = None" "privateKey keN = Some privA"
    by (simp_all add: keN_def keA0_def)
  have c: "Curve pubB = Curve privA" by (simp add: pubB_def privA_def)
  have l: "len (Some (replicate 8192 (0::byte))) \<noteq> 0" by (simp add: len_def)
  have z: "CalculateZA demo pubB
             (elems (if len (Some (replicate 8192 0)) = 0 then defaultUID
                     else Some (replicate 8192 0))) =
           Inl (Error ''sm2: the uid is too long'')"
    unfolding if_not_P [OF l] by (simp add: demo_def elems_def)
  have e: "keN\<lparr>peerPub := Some pubB, peerZ := None\<rparr> = keN\<lparr>peerPub := Some pubB\<rparr>"
    using n by simp
  from SetPeerParameters_digest_failure [OF n(1,3) c z] e
  have "SetPeerParameters demo keN (Some pubB) (Some (replicate 8192 0)) =
     (Inl (Error ''sm2: the uid is too long''), keN\<lparr>peerPub := Some pubB\<rparr>)"
    by simp
  moreover have "SetPeerParameters demo (keN\<lparr>peerPub := Some pubB\<rparr>) (Some pubB) None =
     (Inl errPeerPubExists, keN\<lparr>peerPub := Some pubB\<rparr>)"
    by (rule SetPeerParameters_unchanged) simp
  ultimately show ?thesis using demo_New_N n by simp
qed

section \<open>Claim C1\<close>

lemma NewKeyExchange_Inr:
  assumes "NewKeyExchange P (Some pk) (Some pp) uid puid keyLen gs = Inr ke"
    and "Curve pk = Some c"
  shows "\<exists>za zb.
           CalculateZA P (PublicKey.truncate pk)
             (elems (if len uid = 0 then defaultUID else uid)) = Inr za \<and>
           CalculateZA P pp (elems (if len puid = 0 then defaultUID else puid)) = Inr zb \<and>
           Curve pp = Some c \<and>
           ke = \<lparr>genSignature = gs, keyLength = keyLen, privateKey = Some pk, z = Some za,
                 peerPub = Some pp, peerZ = Some zb, r = None,
                 secret = Some \<lparr>Curve = Some c, X = None, Y = None\<rparr>,
                 peerSecret = Some \<lparr>Curve = Some c, X = None, Y = None\<rparr>,
                 w2 = Some (Lsh 1 (uint_of_int (window (Params_N P c)))),
                 w2Minus1 = Some (Lsh 1 (uint_of_int (window (Params_N P c))) - 1),
                 v = Some \<lparr>Curve = Some c, X = None, Y = None\<rparr>\<rparr>"
  using assms
  by (auto simp: NewKeyExchange_def SetPeerParameters_def Let_def window_def
      split: sum.splits error.splits if_splits)

lemma curve_lawsD:
  assumes "curve_laws P c"
  shows "0 < Params_N P c" and "BitLen (Params_N P c) < 2 ^ 63"
    and "\<And>a b. 0 \<le> a \<Longrightarrow> 0 \<le> b \<Longrightarrow>
           pointAdd P c (scalarBaseMultiply P c a) (scalarBaseMultiply P c b) =
             scalarBaseMultiply P c (a + b)"
    and "\<And>a k. 0 \<le> a \<Longrightarrow> 0 \<le> k \<Longrightarrow>
           scalarMultiply P c (scalarBaseMultiply P c a) k = scalarBaseMultiply P c (a * k)"
    and "\<And>a. 0 \<le> a \<Longrightarrow>
           scalarBaseMultiply P c (a mod Params_N P c) = scalarBaseMultiply P c a"
    and "\<And>a. 0 < a \<Longrightarrow> a < Params_N P c \<Longrightarrow>
           IsOnCurve P c (fst (scalarBaseMultiply P c a)) (snd (scalarBaseMultiply P c a))"
    and "\<And>a. 0 \<le> a \<Longrightarrow>
           0 \<le> fst (scalarBaseMultiply P c a) \<and>
           fst (scalarBaseMultiply P c a) < 256 ^ fieldByteLen P c \<and>
           0 \<le> snd (scalarBaseMultiply P c a) \<and>
           snd (scalarBaseMultiply P c a) < 256 ^ fieldByteLen P c"
    and "\<And>rand k. randFieldElement P c rand = Inr k \<Longrightarrow> 0 < k \<and> k < Params_N P c"
  using assms unfolding curve_laws_def by blast+

lemma Combine_multiple:
  assumes l: "curve_laws P c" and "0 \<le> dP" "0 \<le> rP" "0 \<le> rv" "0 \<le> d"
  shows "Combine P c w sx rv d (scalarBaseMultiply P c dP) (scalarBaseMultiply P c rP) =
           scalarBaseMultiply P c
             (((dP + rP * AssociativeValue w (fst (scalarBaseMultiply P c rP))) *
               (AssociativeValue w sx * rv + d)) mod Params_N P c)"
proof -
  let ?N = "Params_N P c"
  let ?x1 = "AssociativeValue w (fst (scalarBaseMultiply P c rP))"
  let ?t = "(AssociativeValue w sx * rv + d) mod ?N"
  have x1: "0 \<le> ?x1" using AssociativeValue_pos [of w "fst (scalarBaseMultiply P c rP)"] by simp
  have a0: "0 \<le> AssociativeValue w sx" using AssociativeValue_pos [of w sx] by simp
  have t: "0 \<le> ?t" using curve_lawsD(1) [OF l] by simp
  have s: "0 \<le> dP + rP * ?x1" using assms(2,3) x1 by simp
  have u: "0 \<le> AssociativeValue w sx * rv + d" using a0 assms(4,5) by simp
  have "Combine P c w sx rv d (scalarBaseMultiply P c dP) (scalarBaseMultiply P c rP) =
          scalarMultiply P c
            (pointAdd P c (scalarBaseMultiply P c dP)
               (scalarMultiply P c (scalarBaseMultiply P c rP) ?x1)) ?t"
    by (simp add: Combine_def Let_def)
  also have "\<dots> = scalarMultiply P c
            (pointAdd P c (scalarBaseMultiply P c dP) (scalarBaseMultiply P c (rP * ?x1))) ?t"
    using curve_lawsD(4) [OF l assms(3) x1] by simp
  also have "\<dots> = scalarMultiply P c (scalarBaseMultiply P c (dP + rP * ?x1)) ?t"
    using curve_lawsD(3) [OF l assms(2), of "rP * ?x1"] assms(3) x1 by simp
  also have "\<dots> = scalarBaseMultiply P c ((dP + rP * ?x1) * ?t)"
    using curve_lawsD(4) [OF l s t] .
  also have "\<dots> = scalarBaseMultiply P c (((dP + rP * ?x1) * ?t) mod ?N)"
    using curve_lawsD(5) [OF l, of "(dP + rP * ?x1) * ?t"] s t by simp
  also have "((dP + rP * ?x1) * ?t) mod ?N =
             ((dP + rP * ?x1) * (AssociativeValue w sx * rv + d)) mod ?N"
    by (simp add: mod_mult_right_eq)
  finally show ?thesis .
qed

lemma ComputeTag_mirror:
  "ComputeTag P n True p vpt ownZ peerZ' ownEph peerEph =
   ComputeTag P n False p vpt peerZ' ownZ peerEph ownEph"
  by (simp add: ComputeTag_def)


lemma generateSharedKey_eq:
  assumes "privateKey ke = Some pk" and "Curve pk = Some c"
    and "v ke = Some vv" and "X vv = Some vx" and "Y vv = Some vy"
    and "0 \<le> vx" "vx < 256 ^ fieldByteLen P c" "0 \<le> vy" "vy < 256 ^ fieldByteLen P c"
  shows "generateSharedKey P ke isResponder =
           sm3_Kdf P (fixedWidth (fieldByteLen P c) vx @ fixedWidth (fieldByteLen P c) vy @
                      (if isResponder then elems (peerZ ke) @ elems (z ke)
                       else elems (z ke) @ elems (peerZ ke))) (keyLength ke)"
  using assms
  by (simp add: generateSharedKey_def bigIntToBytes_fixedWidth Let_def)

lemma InitKeyExchange_run:
  assumes "privateKey ke = Some pk" "Curve pk = Some c" "secret ke = Some s"
    and "randFieldElement P c rand = Inr rv"
  shows "InitKeyExchange P ke rand =
           (Inr (Some (s\<lparr>X := Some (fst (scalarBaseMultiply P c rv)),
                          Y := Some (snd (scalarBaseMultiply P c rv))\<rparr>)),
            ke\<lparr>secret := Some (s\<lparr>X := Some (fst (scalarBaseMultiply P c rv)),
                                 Y := Some (snd (scalarBaseMultiply P c rv))\<rparr>),
               r := Some rv\<rparr>)"
  using assms
  by (simp add: InitKeyExchange_def initKeyExchange_def scalarBaseMultiply_def case_prod_beta)

lemma respondKeyExchange_run:
  assumes "peerPub ke = Some pp" "privateKey ke = Some pk" "Curve pk = Some c"
    and "X ra = Some rax" "Y ra = Some ray" "IsOnCurve P c rax ray"
    and "secret ke = Some s"
    and "mqv P (ke\<lparr>peerSecret := Some ra,
                   secret := Some (s\<lparr>X := Some (fst (scalarBaseMultiply P c rv)),
                                     Y := Some (snd (scalarBaseMultiply P c rv))\<rparr>),
                   r := Some rv\<rparr>) = (Inr (), ke')"
    and "v ke' = Some vv" "X vv = Some vx" "Y vv = Some vy"
  shows "respondKeyExchange P ke (Some ra) rv =
           (if vx = 0 \<and> vy = 0 then (Inl errVInfinity, ke')
            else if \<not> genSignature ke' then (Inr (secret ke', None), ke')
            else (case sign P ke' True 0x02 of
                    Inl e \<Rightarrow> (Inl e, ke')
                  | Inr sg \<Rightarrow> (Inr (secret ke', Some sg), ke')))"
  using assms
  by (simp add: respondKeyExchange_def scalarBaseMultiply_def case_prod_beta Sign_0 Let_def
      split: sum.splits)

lemma ConfirmResponder_run:
  assumes "peerPub ke = Some pp" "privateKey ke = Some pk" "Curve pk = Some c"
    and "X rb = Some rbx" "Y rb = Some rby" "IsOnCurve P c rbx rby"
    and "mqv P (ke\<lparr>peerSecret := Some rb\<rparr>) = (Inr (), ke')"
    and "v ke' = Some vv" "X vv = Some vx" "Y vv = Some vy" "\<not> (vx = 0 \<and> vy = 0)"
    and "len sB = 0 \<or> sign P ke' False 0x02 = Inr (elems sB)"
    and "generateSharedKey P ke' False = Inr key"
  shows "ConfirmResponder P ke (Some rb) sB =
           (if \<not> genSignature ke' then (Inr (key, None), ke')
            else (case sign P ke' False 0x03 of
                    Inl e \<Rightarrow> (Inl e, ke')
                  | Inr sg \<Rightarrow> (Inr (key, Some sg), ke')))"
proof -
  have c: "(if 0 < len sB
            then (case sign P ke' False 0x02 of
                    Inl e \<Rightarrow> Some e
                  | Inr buffer \<Rightarrow>
                      if ConstantTimeCompare buffer (elems sB) \<noteq> 1
                      then Some errResponderSignature else None)
            else None) = None"
    using assms(12) by (auto simp: ConstantTimeCompare_iff)
  show ?thesis
    unfolding ConfirmResponder_def
    using assms(1-11,13) by (auto simp: c Sign_0 split: sum.splits)
qed

lemma ConfirmInitiator_run:
  assumes "s1 = None \<or> sign P ke True 0x03 = Inr (elems s1)"
  shows "ConfirmInitiator P ke s1 = generateSharedKey P ke True"
  using assms by (auto simp: ConfirmInitiator_def ConstantTimeCompare_iff)

lemma truncate_fields:
  "Curve (PublicKey.truncate pk) = Curve pk"
  "X (PublicKey.truncate pk) = X pk"
  "Y (PublicKey.truncate pk) = Y pk"
  by (simp_all add: PublicKey.truncate_def)

lemma valid_keyD:
  assumes "valid_key P c pk"
  obtains d where "D pk = Some d" "Curve pk = Some c" "0 < d" "d < Params_N P c"
    "X pk = Some (fst (scalarBaseMultiply P c d))" "Y pk = Some (snd (scalarBaseMultiply P c d))"
  using assms by (auto simp: valid_key_def split: option.splits)

text \<open>
  Claim C1. Let the curve provider satisfy \<open>curve_laws\<close>, let both key pairs be valid, let
  \<open>NewKeyExchange\<close> build the initiator's session with the responder's public key and
  the responder's session with the initiator's, both for the key length \<open>keyLen\<close>, let
  both scalar draws succeed, and let the key derivation return \<open>keyLen\<close> bytes. Then
  \<open>InitKeyExchange\<close> returns the initiator's ephemeral point and \<open>RepondKeyExchange\<close>
  computes a combination point. If that point is (0, 0), \<open>RepondKeyExchange\<close> returns
  the infinity error. Otherwise the untampered flow \<open>RepondKeyExchange\<close>,
  \<open>ConfirmResponder\<close>, \<open>ConfirmInitiator\<close> runs to its end, both sides hold the same
  combination point and both return the same key, of \<open>keyLen\<close> bytes.
\<close>

theorem key_agreement:
  assumes l: "curve_laws P c"
    and kA: "valid_key P c pkA" and kB: "valid_key P c pkB"
    and nA: "NewKeyExchange P (Some pkA) (Some (PublicKey.truncate pkB)) uidA uidB keyLen genA = Inr A0"
    and nB: "NewKeyExchange P (Some pkB) (Some (PublicKey.truncate pkA)) uidB uidA keyLen genB = Inr B0"
    and dA: "randFieldElement P c randA = Inr ra"
    and dB: "randFieldElement P c randB = Inr rb"
    and kdf: "\<forall>inp. \<exists>k. sm3_Kdf P inp keyLen = Inr k \<and> length k = nat keyLen"
  shows "\<exists>RA A1 resB B1 vv vx vy.
           InitKeyExchange P A0 randA = (Inr (Some RA), A1) \<and>
           RepondKeyExchange P B0 randB (Some RA) = (resB, B1) \<and>
           v B1 = Some vv \<and> X vv = Some vx \<and> Y vv = Some vy \<and>
           (if vx = 0 \<and> vy = 0 then resB = Inl errVInfinity
            else (\<exists>RB sB key sA A2.
                    resB = Inr (Some RB, sB) \<and>
                    ConfirmResponder P A1 (Some RB) sB = (Inr (key, sA), A2) \<and>
                    ConfirmInitiator P B1 sA = Inr key \<and>
                    length key = nat keyLen \<and> v A2 = v B1))"
proof -
  let ?N = "Params_N P c"
  let ?n = "fieldByteLen P c"
  define w where "w = nat (window ?N)"
  note L = curve_lawsD [OF l]
  have n0: "?N \<noteq> 0" using L(1) by simp
  have w2e: "Lsh 1 (uint_of_int (window ?N)) = 2 ^ w"
    using window_nonneg [OF n0 L(2)] by (simp add: w_def Lsh_def push_bit_eq_mult)
  from kA obtain da where da: "D pkA = Some da" "Curve pkA = Some c" "0 < da"
    "X pkA = Some (fst (scalarBaseMultiply P c da))" "Y pkA = Some (snd (scalarBaseMultiply P c da))"
    by (rule valid_keyD)
  from kB obtain db where db: "D pkB = Some db" "Curve pkB = Some c" "0 < db"
    "X pkB = Some (fst (scalarBaseMultiply P c db))" "Y pkB = Some (snd (scalarBaseMultiply P c db))"
    by (rule valid_keyD)
  from L(8) [OF dA] have ra: "0 < ra" "ra < ?N" by simp_all
  from L(8) [OF dB] have rb: "0 < rb" "rb < ?N" by simp_all
  define E where "E = \<lparr>Curve = Some c, X = None, Y = None\<rparr>"
  from NewKeyExchange_Inr [OF nA da(2)] obtain zA zB where
    zA: "CalculateZA P (PublicKey.truncate pkA)
           (elems (if len uidA = 0 then defaultUID else uidA)) = Inr zA"
    and zB: "CalculateZA P (PublicKey.truncate pkB)
           (elems (if len uidB = 0 then defaultUID else uidB)) = Inr zB"
    and A0: "A0 = \<lparr>genSignature = genA, keyLength = keyLen, privateKey = Some pkA, z = Some zA,
                 peerPub = Some (PublicKey.truncate pkB), peerZ = Some zB, r = None,
                 secret = Some E, peerSecret = Some E,
                 w2 = Some (2 ^ w), w2Minus1 = Some (2 ^ w - 1), v = Some E\<rparr>"
    unfolding w2e E_def by blast
  from NewKeyExchange_Inr [OF nB db(2)] zA zB have
    B0: "B0 = \<lparr>genSignature = genB, keyLength = keyLen, privateKey = Some pkB, z = Some zB,
                 peerPub = Some (PublicKey.truncate pkA), peerZ = Some zA, r = None,
                 secret = Some E, peerSecret = Some E,
                 w2 = Some (2 ^ w), w2Minus1 = Some (2 ^ w - 1), v = Some E\<rparr>"
    unfolding w2e E_def by auto
  define RApt where "RApt = scalarBaseMultiply P c ra"
  define RBpt where "RBpt = scalarBaseMultiply P c rb"
  define RA where "RA = \<lparr>Curve = Some c, X = Some (fst RApt), Y = Some (snd RApt)\<rparr>"
  define RB where "RB = \<lparr>Curve = Some c, X = Some (fst RBpt), Y = Some (snd RBpt)\<rparr>"
  define A1 where "A1 = A0\<lparr>secret := Some RA, r := Some ra\<rparr>"
  have init: "InitKeyExchange P A0 randA = (Inr (Some RA), A1)"
    using InitKeyExchange_run [of A0 pkA c E P randA ra] da(2) dA
    by (simp add: A0 A1_def RA_def RApt_def E_def)
  \<comment> \<open>Both sides compute the same multiple of the base point.\<close>
  define xA where "xA = AssociativeValue w (fst RApt)"
  define xB where "xB = AssociativeValue w (fst RBpt)"
  define V where "V = scalarBaseMultiply P c (((da + ra * xA) * (xB * rb + db)) mod ?N)"
  have VB: "Combine P c w (fst RBpt) rb db (scalarBaseMultiply P c da) RApt = V"
    unfolding RApt_def
    using Combine_multiple [OF l, of da ra rb db w "fst RBpt"] da(3) ra(1) rb(1) db(3)
    by (simp add: V_def xA_def xB_def RApt_def)
  have VA: "Combine P c w (fst RApt) ra da (scalarBaseMultiply P c db) RBpt = V"
    unfolding RBpt_def
    using Combine_multiple [OF l, of db rb ra da w "fst RApt"] da(3) ra(1) rb(1) db(3)
    by (simp add: V_def xA_def xB_def RBpt_def ac_simps)
  define Vp where "Vp = \<lparr>Curve = Some c, X = Some (fst V), Y = Some (snd V)\<rparr>"
  define B1 where "B1 = B0\<lparr>peerSecret := Some RA, secret := Some RB, r := Some rb, v := Some Vp\<rparr>"
  define A2 where "A2 = A1\<lparr>peerSecret := Some RB, v := Some Vp\<rparr>"
  have onA: "IsOnCurve P c (fst RApt) (snd RApt)" and onB: "IsOnCurve P c (fst RBpt) (snd RBpt)"
    unfolding RApt_def RBpt_def using L(6) ra rb by simp_all
  have mqvB: "mqv P (B0\<lparr>peerSecret := Some RA,
                        secret := Some (E\<lparr>X := Some (fst (scalarBaseMultiply P c rb)),
                                          Y := Some (snd (scalarBaseMultiply P c rb))\<rparr>),
                        r := Some rb\<rparr>) = (Inr (), B1)"
    using mqv_Combine [where P = P and c = c and w = w and pk = pkB and d = db and rv = rb
        and sx = "fst RBpt" and psx = "fst RApt" and psy = "snd RApt"
        and ppx = "fst (scalarBaseMultiply P c da)" and ppy = "snd (scalarBaseMultiply P c da)"
        and vv = E and s = RB and ps = RA and pp = "PublicKey.truncate pkA"
        and ke = "B0\<lparr>peerSecret := Some RA, secret := Some RB, r := Some rb\<rparr>"]
      L(1) db(1,2) da(4,5) VB
    by (simp add: B0 B1_def RB_def RA_def RBpt_def E_def Vp_def truncate_fields)
  have mqvA: "mqv P (A1\<lparr>peerSecret := Some RB\<rparr>) = (Inr (), A2)"
    using mqv_Combine [where P = P and c = c and w = w and pk = pkA and d = da and rv = ra
        and sx = "fst RApt" and psx = "fst RBpt" and psy = "snd RBpt"
        and ppx = "fst (scalarBaseMultiply P c db)" and ppy = "snd (scalarBaseMultiply P c db)"
        and vv = E and s = RA and ps = RB and pp = "PublicKey.truncate pkB"
        and ke = "A1\<lparr>peerSecret := Some RB\<rparr>"]
      L(1) da(1,2) db(4,5) VA
    by (simp add: A0 A1_def A2_def RB_def RA_def E_def Vp_def truncate_fields)
  \<comment> \<open>Every coordinate that is hashed is a field element.\<close>
  have rng: "0 \<le> fst q \<and> fst q < 256 ^ ?n \<and> 0 \<le> snd q \<and> snd q < 256 ^ ?n"
    if "q = RApt \<or> q = RBpt \<or> q = V" for q
    using that L(7) [of ra] L(7) [of rb] L(7) [of "((da + ra * xA) * (xB * rb + db)) mod ?N"]
      ra(1) rb(1) L(1)
    by (auto simp: RApt_def RBpt_def V_def)
  have rs: "\<forall>x \<in> {fst V, snd V, fst RBpt, snd RBpt, fst RApt, snd RApt}. 0 \<le> x \<and> x < 256 ^ ?n"
    and rs': "\<forall>x \<in> {fst V, snd V, fst RApt, snd RApt, fst RBpt, snd RBpt}. 0 \<le> x \<and> x < 256 ^ ?n"
    using rng [of RApt] rng [of RBpt] rng [of V] by auto
  define tag where "tag p = ComputeTag P ?n True p (fst V, snd V) zB zA RBpt RApt" for p
  have tagB: "sign P B1 True p = Inr (tag p)" for p
    using sign_ComputeTag [where ke = B1 and pk = pkB and c = c and vv = Vp and s = RB and ps = RA
        and P = P, OF _ _ _ _ _ _ _ _ _ _ _ rs, of True p] db(2)
    by (simp add: B1_def B0 Vp_def RB_def RA_def tag_def elems_def)
  have tagA: "sign P A2 False p = Inr (tag p)" for p
    using sign_ComputeTag [where ke = A2 and pk = pkA and c = c and vv = Vp and s = RA and ps = RB
        and P = P, OF _ _ _ _ _ _ _ _ _ _ _ rs', of False p] da(2)
    by (simp add: A2_def A1_def A0 Vp_def RB_def RA_def tag_def elems_def ComputeTag_mirror)
  define buf where "buf = fixedWidth ?n (fst V) @ fixedWidth ?n (snd V) @ zA @ zB"
  from kdf obtain key where key: "sm3_Kdf P buf keyLen = Inr key" "length key = nat keyLen"
    by blast
  have keyA: "generateSharedKey P A2 False = Inr key"
    using generateSharedKey_eq [where ke = A2 and pk = pkA and c = c and vv = Vp and P = P
        and vx = "fst V" and vy = "snd V", of False] da(2) rng [of V] key(1)
    by (simp add: A2_def A1_def A0 Vp_def buf_def elems_def)
  have keyB: "generateSharedKey P B1 True = Inr key"
    using generateSharedKey_eq [where ke = B1 and pk = pkB and c = c and vv = Vp and P = P
        and vx = "fst V" and vy = "snd V", of True] db(2) rng [of V] key(1)
    by (simp add: B1_def B0 Vp_def buf_def elems_def)
  have resp: "RepondKeyExchange P B0 randB (Some RA) =
           (if fst V = 0 \<and> snd V = 0 then (Inl errVInfinity, B1)
            else if \<not> genB then (Inr (Some RB, None), B1)
            else (Inr (Some RB, Some (tag 0x02)), B1))"
  proof -
    have "RepondKeyExchange P B0 randB (Some RA) = respondKeyExchange P B0 (Some RA) rb"
      using dB db(2) by (simp add: RepondKeyExchange_def B0)
    also have "\<dots> = (if fst V = 0 \<and> snd V = 0 then (Inl errVInfinity, B1)
            else if \<not> genSignature B1 then (Inr (secret B1, None), B1)
            else (case sign P B1 True 0x02 of
                    Inl e \<Rightarrow> (Inl e, B1)
                  | Inr sg \<Rightarrow> (Inr (secret B1, Some sg), B1)))"
      using onA db(2)
      by (intro respondKeyExchange_run [where pp = "PublicKey.truncate pkA" and pk = pkB and c = c
            and s = E and vv = Vp and rax = "fst RApt" and ray = "snd RApt", OF _ _ _ _ _ _ _ mqvB])
         (simp_all add: B0 RA_def Vp_def B1_def)
    finally show ?thesis
      by (simp add: tagB) (simp add: B1_def B0)
  qed
  define resB where "resB = fst (RepondKeyExchange P B0 randB (Some RA))"
  have rB: "RepondKeyExchange P B0 randB (Some RA) = (resB, B1)"
    using resp by (simp add: resB_def)
  have vB: "v B1 = Some Vp" "X Vp = Some (fst V)" "Y Vp = Some (snd V)"
    by (simp_all add: B1_def Vp_def)
  have fin: "if fst V = 0 \<and> snd V = 0 then resB = Inl errVInfinity
            else (\<exists>RB sB key sA A2.
                    resB = Inr (Some RB, sB) \<and>
                    ConfirmResponder P A1 (Some RB) sB = (Inr (key, sA), A2) \<and>
                    ConfirmInitiator P B1 sA = Inr key \<and>
                    length key = nat keyLen \<and> v A2 = v B1)"
  proof (cases "fst V = 0 \<and> snd V = 0")
    case True
    with resp show ?thesis by (simp add: resB_def)
  next
    case False
    define sB where "sB = (if genB then Some (tag 0x02) else None)"
    define sA where "sA = (if genA then Some (tag 0x03) else None)"
    from resp False have 1: "resB = Inr (Some RB, sB)"
      by (auto simp: sB_def resB_def)
    have c2: "len sB = 0 \<or> sign P A2 False 0x02 = Inr (elems sB)"
      by (simp add: sB_def tagA len_def elems_def)
    have "ConfirmResponder P A1 (Some RB) sB =
           (if \<not> genSignature A2 then (Inr (key, None), A2)
            else (case sign P A2 False 0x03 of
                    Inl e \<Rightarrow> (Inl e, A2)
                  | Inr sg \<Rightarrow> (Inr (key, Some sg), A2)))"
      using onB da(2) False
      by (intro ConfirmResponder_run [where pp = "PublicKey.truncate pkB" and pk = pkA and c = c
            and vv = Vp and rbx = "fst RBpt" and rby = "snd RBpt" and vx = "fst V" and vy = "snd V",
            OF _ _ _ _ _ _ mqvA _ _ _ _ c2 keyA])
         (simp_all add: A1_def A0 RB_def Vp_def A2_def)
    then have 2: "ConfirmResponder P A1 (Some RB) sB = (Inr (key, sA), A2)"
      by (simp add: tagA sA_def) (simp add: A2_def A1_def A0)
    have "sA = None \<or> sign P B1 True 0x03 = Inr (elems sA)"
      by (simp add: sA_def tagB elems_def)
    then have 3: "ConfirmInitiator P B1 sA = Inr key"
      using keyB by (simp add: ConfirmInitiator_run)
    have 4: "v A2 = v B1" by (simp add: A2_def B1_def)
    from 1 2 3 4 key(2) False show ?thesis by auto
  qed
  from init rB vB fin show ?thesis by blast
qed

lemma demo_base_multiple:
  "0 \<le> a \<Longrightarrow> scalarBaseMultiply demo 0 a = (a mod 11, (a * 2) mod 11)"
  by (simp add: scalarBaseMultiply_def demo_def from_bytes_Bytes)

lemma demo_fields:
  "Params_N demo c = 11" "fieldByteLen demo c = 1"
  "Add demo c x1 y1 x2 y2 = ((x1 + x2) mod 11, (y1 + y2) mod 11)"
  "ScalarMult demo c x y k = ((from_bytes k * x) mod 11, (from_bytes k * y) mod 11)"
  "IsOnCurve demo c x y \<longleftrightarrow> 0 \<le> x \<and> x < 11 \<and> 0 \<le> y \<and> y < 11 \<and> \<not> (x = 0 \<and> y = 0)"
  by (simp_all add: demo_def)

lemma demo_curve_laws: "curve_laws demo 0"
proof -
  have 1: "0 < Params_N demo 0" "BitLen (Params_N demo 0) < 2 ^ 63"
    by (simp_all add: demo_fields demo_BitLen)
  have 2: "pointAdd demo 0 (scalarBaseMultiply demo 0 a) (scalarBaseMultiply demo 0 b) =
             scalarBaseMultiply demo 0 (a + b)" if "0 \<le> a" "0 \<le> b" for a b
    using that
    by (simp add: demo_base_multiple pointAdd_def demo_fields mod_simps distrib_right)
  have 3: "scalarMultiply demo 0 (scalarBaseMultiply demo 0 a) k = scalarBaseMultiply demo 0 (a * k)"
    if "0 \<le> a" "0 \<le> k" for a k
    using that
    by (simp add: demo_base_multiple scalarMultiply_def demo_fields from_bytes_Bytes mod_simps
        ac_simps)
  have 4: "scalarBaseMultiply demo 0 (a mod Params_N demo 0) = scalarBaseMultiply demo 0 a"
    if "0 \<le> a" for a
    using that by (simp add: demo_base_multiple demo_fields mod_simps)
  have 5: "IsOnCurve demo 0 (fst (scalarBaseMultiply demo 0 a)) (snd (scalarBaseMultiply demo 0 a))"
    if "0 < a" "a < Params_N demo 0" for a
    using that by (simp add: demo_base_multiple demo_fields)
  have 6: "0 \<le> fst (scalarBaseMultiply demo 0 a) \<and>
        fst (scalarBaseMultiply demo 0 a) < 256 ^ fieldByteLen demo 0 \<and>
        0 \<le> snd (scalarBaseMultiply demo 0 a) \<and>
        snd (scalarBaseMultiply demo 0 a) < 256 ^ fieldByteLen demo 0" if "0 \<le> a" for a
  proof -
    have "a mod 11 < 11" "(a * 2) mod 11 < 11" by simp_all
    then have "a mod 11 < 256" "(a * 2) mod 11 < 256" by linarith+
    with that show ?thesis by (simp add: demo_base_multiple demo_fields)
  qed
  have 7: "0 < k \<and> k < Params_N demo 0" if "randFieldElement demo 0 rand = Inr k" for rand k
  proof (cases rand)
    case Nil
    with that show ?thesis by (simp add: demo_def)
  next
    case (Cons b bs)
    have "0 \<le> uint b mod 10" "uint b mod 10 < 10" by simp_all
    with that Cons show ?thesis by (auto simp: demo_def)
  qed
  from 1 2 3 4 5 6 7 show ?thesis
    unfolding curve_laws_def by blast
qed

theorem key_agreement_witness:
  "curve_laws demo 0 \<and> valid_key demo 0 privA \<and> valid_key demo 0 privB \<and>
   NewKeyExchange demo (Some privA) (Some (PublicKey.truncate privB)) None None 16 True = Inr keA0 \<and>
   NewKeyExchange demo (Some privB) (Some (PublicKey.truncate privA)) None None 16 True = Inr keB0 \<and>
   InitKeyExchange demo keA0 [1] =
     (Inr (Some \<lparr>Curve = Some 0, X = Some 2, Y = Some 4\<rparr>), keA1) \<and>
   RepondKeyExchange demo keB0 [3] (Some \<lparr>Curve = Some 0, X = Some 2, Y = Some 4\<rparr>) =
     (Inr (Some \<lparr>Curve = Some 0, X = Some 4, Y = Some 8\<rparr>,
           Some ([2, 6, 3, 3, 6] @ elems defaultUID @ replicate 11 0)), keB1) \<and>
   (\<exists>key sA A2.
      ConfirmResponder demo keA1 (Some \<lparr>Curve = Some 0, X = Some 4, Y = Some 8\<rparr>)
        (Some ([2, 6, 3, 3, 6] @ elems defaultUID @ replicate 11 0)) = (Inr (key, sA), A2) \<and>
      ConfirmInitiator demo keB1 sA = Inr key \<and> length key = 16 \<and> v A2 = v keB1)"
proof -
  have tA: "PublicKey.truncate privA = pubA" and tB: "PublicKey.truncate privB = pubB"
    by (simp_all add: PublicKey.truncate_def privA_def privB_def pubA_def pubB_def)
  have vA: "valid_key demo 0 privA" and vB: "valid_key demo 0 privB"
    by (simp_all add: valid_key_def privA_def privB_def demo_base_multiple demo_fields)
  have nA: "NewKeyExchange demo (Some privA) (Some (PublicKey.truncate privB)) None None 16 True
              = Inr keA0"
    and nB: "NewKeyExchange demo (Some privB) (Some (PublicKey.truncate privA)) None None 16 True
              = Inr keB0"
    using demo_New_A demo_New_B by (simp_all add: tA tB)
  have dA: "randFieldElement demo 0 [1] = Inr 2" and dB: "randFieldElement demo 0 [3] = Inr 4"
    by (simp_all add: demo_def)
  have kdf: "\<forall>inp. \<exists>k. sm3_Kdf demo inp 16 = Inr k \<and> length k = nat 16"
    by (auto simp: demo_def)
  from key_agreement [OF demo_curve_laws vA vB nA nB dA dB kdf]
  obtain RA A1 resB B1 vv vx vy where
    i: "InitKeyExchange demo keA0 [1] = (Inr (Some RA), A1)"
    and b: "RepondKeyExchange demo keB0 [3] (Some RA) = (resB, B1)"
    and p: "v B1 = Some vv" "X vv = Some vx" "Y vv = Some vy"
    and d: "if vx = 0 \<and> vy = 0 then resB = Inl errVInfinity
            else (\<exists>RB sB key sA A2.
                    resB = Inr (Some RB, sB) \<and>
                    ConfirmResponder demo A1 (Some RB) sB = (Inr (key, sA), A2) \<and>
                    ConfirmInitiator demo B1 sA = Inr key \<and>
                    length key = nat 16 \<and> v A2 = v B1)"
    by blast
  from i demo_Init_A have e: "RA = \<lparr>Curve = Some 0, X = Some 2, Y = Some 4\<rparr>" "A1 = keA1"
    by simp_all
  from b demo_Respond_B have f: "B1 = keB1"
    "resB = Inr (Some \<lparr>Curve = Some 0, X = Some 4, Y = Some 8\<rparr>,
                 Some ([2, 6, 3, 3, 6] @ elems defaultUID @ replicate 11 0))"
    unfolding e by simp_all
  from p have "vx = 3" "vy = 6"
    unfolding f by (auto simp: keB1_def)
  with d have
    "\<exists>key sA A2.
      ConfirmResponder demo keA1 (Some \<lparr>Curve = Some 0, X = Some 4, Y = Some 8\<rparr>)
        (Some ([2, 6, 3, 3, 6] @ elems defaultUID @ replicate 11 0)) = (Inr (key, sA), A2) \<and>
      ConfirmInitiator demo keB1 sA = Inr key \<and> length key = 16 \<and> v A2 = v keB1"
    unfolding e f by auto
  with demo_curve_laws vA vB nA nB demo_Init_A demo_Respond_B show ?thesis
    by simp
qed

end
